theory Spec2Isabelle
  imports Main
begin

section \<open>Profile initialization on the Home screen\<close>

text \<open>
  This theory embeds the asynchronous function \<open>initializeProfile\<close> of
  \<^verbatim>\<open>src/app/(tabs)/index.tsx\<close> (lines 130--320) together with its inner helper
  \<open>waitForRelayConnection\<close>. The function is a sequence of awaited calls on three
  collaborators: the secure key-value store, the Nostr service and the user profile
  context. Every awaited call may reject; a rejection is an \<open>error\<close> value that travels
  with the state reached so far, so that \<open>try\<close>/\<open>catch\<close>/\<open>finally\<close> are plain case
  distinctions.
\<close>

subsection \<open>Data\<close>

type_synonym secure_store = "string \<rightharpoonup> string"

text \<open>\<open>syncStatus\<close> of the profile context: \<open>'idle'\<close> or any other value.\<close>

datatype sync_status = Idle | OtherStatus

text \<open>
  The awaited calls of \<open>initializeProfile\<close>, by the place they stand at in the source.
  \<open>Refresh k\<close> is the \<open>k\<close>-th call of \<open>refreshConnectionStatus\<close> made by the wait.
\<close>

datatype callsite =
    GuardRead       \<comment> \<open>line 152: \<open>getItemAsync('profile_initialized')\<close>\<close>
  | OriginRead      \<comment> \<open>line 161: \<open>getItemAsync('portal_seed_origin')\<close>\<close>
  | LocalRead       \<comment> \<open>line 170: \<open>getItemAsync('portal_username')\<close>\<close>
  | SetLoading      \<comment> \<open>line 183: \<open>setUsername('Loading...')\<close>\<close>
  | Refresh nat     \<comment> \<open>lines 194, 212: \<open>refreshConnectionStatus()\<close>\<close>
  | Fetch           \<comment> \<open>line 239: \<open>fetchProfile(publicKey)\<close>\<close>
  | ClearMiss       \<comment> \<open>line 248: \<open>setUsername('')\<close>\<close>
  | ClearError      \<comment> \<open>line 253: \<open>setUsername('')\<close>\<close>
  | FallbackRead    \<comment> \<open>line 261: \<open>getItemAsync('portal_username')\<close>\<close>
  | OriginDelete    \<comment> \<open>line 265: \<open>deleteItemAsync('portal_seed_origin')\<close>\<close>
  | Recheck         \<comment> \<open>line 281: \<open>getItemAsync('profile_initialized')\<close>\<close>
  | SetTag          \<comment> \<open>line 293: \<open>setUsername(randomGamertag)\<close>\<close>
  | Publish         \<comment> \<open>line 296: \<open>setUserProfile({...})\<close>\<close>
  | FlagSet         \<comment> \<open>line 310: \<open>setItemAsync('profile_initialized', 'true')\<close>\<close>

datatype error = Rejected callsite

text \<open>The argument of \<open>setUserProfile\<close>: \<open>nip05\<close>, \<open>name\<close>, \<open>picture\<close>, \<open>displayName\<close>.\<close>

datatype nostr_profile = NostrProfile string string string string

text \<open>The calls a run makes on its collaborators, in the order they are made.\<close>

datatype event =
    StoreGet string
  | StoreSet string string
  | StoreDelete string
  | SetUsername string
  | RefreshConnectionStatus
  | FetchProfile string
  | SetUserProfile nostr_profile

text \<open>
  The console messages that carry data or mark a branch; the other \<open>console.log\<close> lines,
  the progress message of lines 204--206 among them, are left out.
\<close>

datatype log =
    InProgressSkip              \<comment> \<open>line 144\<close>
  | ExistingProfile string      \<comment> \<open>line 306, with \<open>currentUsername\<close>\<close>
  | AbortDummyCreation          \<comment> \<open>line 283\<close>
  | DummyCreated string         \<comment> \<open>line 303, with \<open>randomGamertag\<close>\<close>
  | InitFailed error            \<comment> \<open>line 312, \<open>console.error\<close>\<close>

text \<open>The value \<open>fetchProfile\<close> resolves to: \<open>{found: boolean, username?: string}\<close>.\<close>

record profile_result =
  found :: bool
  res_username :: "string option"

text \<open>
  What a run observes of its surroundings. \<open>publicKey\<close> is \<open>''''\<close> when the service has
  none (\<open>null\<close>, \<open>undefined\<close> and the empty string are all falsy); \<open>portalApp\<close> says that
  \<open>nostrService.portalApp\<close> is not null. \<open>throws c\<close> says that the awaited call at \<open>c\<close>
  rejects. \<open>connectedCount k\<close> is the count the \<open>k\<close>-th connectivity check reads, and
  \<open>lag k\<close> the milliseconds that check takes beyond its timers' nominal delays.
  \<open>gamertag\<close> is the value \<open>generateRandomGamertag()\<close> returns. \<open>concurrentFinish\<close> says
  that another initialization of the same installation sets the completion flag while
  this run is between its two reads of it.
\<close>

record env =
  isInitialized :: bool
  publicKey :: string
  portalApp :: bool
  syncStatus :: sync_status
  throws :: "callsite \<Rightarrow> bool"
  connectedCount :: "nat \<Rightarrow> nat"
  lag :: "nat \<Rightarrow> nat"
  fetchResult :: profile_result
  gamertag :: string
  concurrentFinish :: bool

text \<open>
  The state a run works on: the secure store, the username held by the profile context,
  the component's \<open>isInitializing\<close> latch, the clock \<open>Date.now()\<close> in milliseconds, and
  the calls and console messages so far.
\<close>

record state =
  store :: secure_store
  username :: string
  isInitializing :: bool
  now :: nat
  trace :: "event list"
  console :: "log list"

datatype outcome =
    NoOp                  \<comment> \<open>a trigger precondition failed (lines 133--146)\<close>
  | AlreadyInitialized    \<comment> \<open>the guard of line 153 returned\<close>
  | Completed             \<comment> \<open>the body ran to the end of the \<open>try\<close> block\<close>
  | Aborted               \<comment> \<open>the \<open>return\<close> of line 286\<close>
  | Failed error          \<comment> \<open>the \<open>catch\<close> of line 311 took a rejection\<close>
  | Escaped error         \<comment> \<open>a rejection outside the \<open>try\<close> block left the function\<close>

type_synonym 'a io = "(error + 'a) \<times> state"

subsection \<open>Strings\<close>

text \<open>
  Strings are lists of 8-bit code units. \<open>String.prototype.trim\<close> strips white space and
  line terminators from both ends; in this range these are TAB, LF, VT, FF, CR, SP and
  NBSP.
\<close>

definition js_whitespace :: "char \<Rightarrow> bool" where
  "js_whitespace c \<longleftrightarrow>
     c = CHR 0x09 \<or> c = CHR 0x0A \<or> c = CHR 0x0B \<or> c = CHR 0x0C \<or> c = CHR 0x0D
     \<or> c = CHR 0x20 \<or> c = CHR 0xA0"

definition js_trim :: "string \<Rightarrow> string" where
  "js_trim s = rev (dropWhile js_whitespace (rev (dropWhile js_whitespace s)))"

subsection \<open>Collaborators\<close>

definition emit :: "event \<Rightarrow> state \<Rightarrow> state" where
  "emit e s = s\<lparr>trace := trace s @ [e]\<rparr>"

definition console_log :: "log \<Rightarrow> state \<Rightarrow> state" where
  "console_log m s = s\<lparr>console := console s @ [m]\<rparr>"

text \<open>\<open>await r f\<close>: continue with \<open>f\<close> when \<open>r\<close> resolved, pass the rejection on otherwise.\<close>

definition await :: "'a io \<Rightarrow> ('a \<Rightarrow> state \<Rightarrow> 'b io) \<Rightarrow> 'b io" where
  "await r f = (case r of (Inl e, s) \<Rightarrow> (Inl e, s) | (Inr a, s) \<Rightarrow> f a s)"

text \<open>
  \<open>expo-secure-store\<close>: a call that rejects leaves the store as it was.
\<close>

definition getItemAsync :: "env \<Rightarrow> callsite \<Rightarrow> string \<Rightarrow> state \<Rightarrow> (string option) io" where
  "getItemAsync en c key s =
     (let s1 = emit (StoreGet key) s in
      if throws en c then (Inl (Rejected c), s1) else (Inr (store s1 key), s1))"

definition setItemAsync :: "env \<Rightarrow> callsite \<Rightarrow> string \<Rightarrow> string \<Rightarrow> state \<Rightarrow> unit io" where
  "setItemAsync en c key v s =
     (let s1 = emit (StoreSet key v) s in
      if throws en c then (Inl (Rejected c), s1)
      else (Inr (), s1\<lparr>store := (store s1)(key \<mapsto> v)\<rparr>))"

definition deleteItemAsync :: "env \<Rightarrow> callsite \<Rightarrow> string \<Rightarrow> state \<Rightarrow> unit io" where
  "deleteItemAsync en c key s =
     (let s1 = emit (StoreDelete key) s in
      if throws en c then (Inl (Rejected c), s1)
      else (Inr (), s1\<lparr>store := (store s1)(key := None)\<rparr>))"

text \<open>
  Modelled from the spec: \<open>setUsername\<close> of \<open>UserProfileContext\<close>, which is not among the
  source files. The spec describes it as the setter of the display name that ``both
  updates in-memory state and persists to SecureKeyValueStore'', the persisted field
  being \<open>portal_username\<close>.
\<close>

definition setUsername :: "env \<Rightarrow> callsite \<Rightarrow> string \<Rightarrow> state \<Rightarrow> unit io" where
  "setUsername en c v s =
     (let s1 = emit (SetUsername v) s in
      if throws en c then (Inl (Rejected c), s1)
      else (Inr (), s1\<lparr>username := v, store := (store s1)(''portal_username'' \<mapsto> v)\<rparr>))"

text \<open>
  Modelled from the spec: \<open>fetchProfile\<close> of \<open>UserProfileContext\<close>, which is not among the
  source files. The spec gives it the contract
  \<open>fetchProfile(publicKey): Promise<{found, username?}>\<close>, failing by throwing on a
  transport error, and says of a username adopted from the network that ``LocalProfileState
  already reflects it'' (step 7; P4 has it as the final username). So a fetch that finds
  a username stores it, as the setter does; any other fetch leaves the profile alone.
  The source fits: its branches for a miss (line 248) and for a failed fetch (line 253)
  clear the placeholder by hand, its branch for a hit (line 243) sets nothing.
\<close>

definition fetchProfile :: "env \<Rightarrow> string \<Rightarrow> state \<Rightarrow> profile_result io" where
  "fetchProfile en pk s =
     (let s1 = emit (FetchProfile pk) s in
      if throws en Fetch then (Inl (Rejected Fetch), s1)
      else
        (Inr (fetchResult en),
         (case res_username (fetchResult en) of
            Some u \<Rightarrow>
              if found (fetchResult en) \<and> u \<noteq> []
              then s1\<lparr>username := u, store := (store s1)(''portal_username'' \<mapsto> u)\<rparr>
              else s1
          | None \<Rightarrow> s1)))"

text \<open>\<open>nostrService.setUserProfile\<close>: publishes the profile, or rejects.\<close>

definition setUserProfile :: "env \<Rightarrow> nostr_profile \<Rightarrow> state \<Rightarrow> unit io" where
  "setUserProfile en p s =
     (let s1 = emit (SetUserProfile p) s in
      if throws en Publish then (Inl (Rejected Publish), s1) else (Inr (), s1))"

text \<open>
  A timer: \<open>await new Promise(resolve => setTimeout(resolve, ms))\<close>. The clock only moves
  forward, and a timer takes at least its delay.
\<close>

definition sleep :: "nat \<Rightarrow> state \<Rightarrow> state" where
  "sleep ms s = s\<lparr>now := now s + ms\<rparr>"

text \<open>
  \<open>nostrService.refreshConnectionStatus()\<close>, the \<open>k\<close>-th call of the wait. The time the
  check takes beyond its timers is charged here.
\<close>

definition refreshConnectionStatus :: "env \<Rightarrow> nat \<Rightarrow> state \<Rightarrow> unit io" where
  "refreshConnectionStatus en k s =
     (let s1 = sleep (lag en k) (emit RefreshConnectionStatus s) in
      if throws en (Refresh k) then (Inl (Rejected (Refresh k)), s1) else (Inr (), s1))"

subsection \<open>The bounded wait for a relay (lines 186--226)\<close>

definition maxWait :: nat where
  "maxWait = 10000"

definition checkInterval :: nat where
  "checkInterval = 1000"

text \<open>
  One connectivity check (lines 194--200 and again 212--220): refresh, wait 100 ms, read
  \<open>getConnectionSummary().connectedCount\<close> and compare with 0.
\<close>

definition checkConnection :: "env \<Rightarrow> nat \<Rightarrow> state \<Rightarrow> bool io" where
  "checkConnection en k s =
     await (refreshConnectionStatus en k s)
       (\<lambda>_ s1. (Inr (connectedCount en k > 0), sleep 100 s1))"

text \<open>
  The \<open>while (Date.now() - startTime < maxWait)\<close> loop; \<open>k\<close> numbers the check the next
  iteration makes.
\<close>

function waitLoop :: "env \<Rightarrow> nat \<Rightarrow> nat \<Rightarrow> state \<Rightarrow> bool io" where
  "waitLoop en startTime k s =
     (if now s - startTime < maxWait then
        (case checkConnection en k (sleep checkInterval s) of
           (Inl e, s') \<Rightarrow> (Inl e, s')
         | (Inr connected, s') \<Rightarrow>
             if connected then (Inr True, s') else waitLoop en startTime (Suc k) s')
      else (Inr False, s))"
  by pat_completeness auto

lemma checkConnection_now_ok:
  "checkConnection en k s = (Inr b, s') \<Longrightarrow> now s + 100 \<le> now s'"
  by (auto simp: checkConnection_def await_def refreshConnectionStatus_def sleep_def
      emit_def Let_def split: if_splits)

termination waitLoop
proof (relation "measure (\<lambda>(en, startTime, k, s). (maxWait + startTime) - now s)", goal_cases)
  case 1
  show ?case by simp
next
  case (2 en startTime k s x1 s' connected)
  then have "checkConnection en k (sleep checkInterval s) = (Inr connected, s')"
    by simp
  from checkConnection_now_ok [OF this] have "now s < now s'"
    by (simp add: sleep_def checkInterval_def)
  with 2 show ?case
    by simp
qed

declare waitLoop.simps [simp del]

definition waitForRelayConnection :: "env \<Rightarrow> state \<Rightarrow> bool io" where
  "waitForRelayConnection en s =
     (let startTime = now s in
      await (checkConnection en 0 s)
        (\<lambda>connected s1.
           if connected then (Inr True, s1) else waitLoop en startTime 1 s1))"

subsection \<open>The body of \<open>initializeProfile\<close>\<close>

text \<open>
  Lines 238--254, the inner \<open>try\<close>/\<open>catch\<close> around the fetch. The result is the new value
  of \<open>currentUsername\<close>. A rejection of the fetch, or of the \<open>setUsername('')\<close> of line
  248, lands in the \<open>catch\<close> of line 250, whose own \<open>setUsername('')\<close> is not protected.
\<close>

definition fetchFromNetwork :: "env \<Rightarrow> state \<Rightarrow> string io" where
  "fetchFromNetwork en s =
     (case fetchProfile en (publicKey en) s of
        (Inr profileResult, s1) \<Rightarrow>
          (case res_username profileResult of
             Some u \<Rightarrow>
               if found profileResult \<and> u \<noteq> [] then (Inr u, s1)
               else (case setUsername en ClearMiss [] s1 of
                       (Inr _, s2) \<Rightarrow> (Inr [], s2)
                     | (Inl _, s2) \<Rightarrow>
                         await (setUsername en ClearError [] s2) (\<lambda>_ s3. (Inr [], s3)))
           | None \<Rightarrow>
               (case setUsername en ClearMiss [] s1 of
                  (Inr _, s2) \<Rightarrow> (Inr [], s2)
                | (Inl _, s2) \<Rightarrow>
                    await (setUsername en ClearError [] s2) (\<lambda>_ s3. (Inr [], s3))))
      | (Inl _, s1) \<Rightarrow>
          await (setUsername en ClearError [] s1) (\<lambda>_ s2. (Inr [], s2)))"

text \<open>
  Lines 172--176: the stored username is taken when it is present, not blank and not the
  placeholder.
\<close>

definition usableLocalUsername :: "string option \<Rightarrow> bool" where
  "usableLocalUsername v =
     (case v of None \<Rightarrow> False
      | Some u \<Rightarrow> u \<noteq> [] \<and> js_trim u \<noteq> [] \<and> u \<noteq> ''Loading...'')"

text \<open>
  Lines 180--254: show the placeholder, wait for a relay, then fetch whether or not a
  relay is connected (the result of the wait is only logged).
\<close>

definition networkLookup :: "env \<Rightarrow> state \<Rightarrow> string io" where
  "networkLookup en s =
     await (setUsername en SetLoading ''Loading...'' s)
       (\<lambda>_ s1.
          await (waitForRelayConnection en s1)
            (\<lambda>hasRelayConnection s2. fetchFromNetwork en s2))"

text \<open>Lines 167--255, the branch \<open>seedOrigin === 'imported'\<close>.\<close>

definition resolveImported :: "env \<Rightarrow> state \<Rightarrow> string io" where
  "resolveImported en s =
     await (getItemAsync en LocalRead ''portal_username'' s)
       (\<lambda>existingLocalUsername s1.
          if usableLocalUsername existingLocalUsername
          then (Inr (case existingLocalUsername of Some u \<Rightarrow> u | None \<Rightarrow> []), s1)
          else networkLookup en s1)"

text \<open>Lines 164--262: the value of \<open>currentUsername\<close> after the branch on the origin.\<close>

definition resolveUsername :: "env \<Rightarrow> string option \<Rightarrow> state \<Rightarrow> string io" where
  "resolveUsername en seedOrigin s =
     (if seedOrigin = Some ''imported'' then resolveImported en s
      else
        await (getItemAsync en FallbackRead ''portal_username'' s)
          (\<lambda>v s1. (Inr (case v of Some u \<Rightarrow> if u = [] then [] else u | None \<Rightarrow> []), s1)))"

text \<open>
  Lines 280--303. Before the second read of the flag, another initialization may have
  finished (\<open>concurrentFinish\<close>). The result is \<open>False\<close> for the \<open>return\<close> of line 286 and
  \<open>True\<close> when the dummy profile was set and published.
\<close>

definition createDummyProfile :: "env \<Rightarrow> state \<Rightarrow> bool io" where
  "createDummyProfile en s =
     (let s0 = (if concurrentFinish en
                then s\<lparr>store := (store s)(''profile_initialized'' \<mapsto> ''true'')\<rparr> else s) in
      await (getItemAsync en Recheck ''profile_initialized'' s0)
        (\<lambda>recentInitCheck s1.
           if recentInitCheck = Some ''true'' then (Inr False, console_log AbortDummyCreation s1)
           else
             (let randomGamertag = gamertag en in
              await (setUsername en SetTag randomGamertag s1)
                (\<lambda>_ s2.
                   await (setUserProfile en
                            (NostrProfile (randomGamertag @ ''@getportal.cc'') randomGamertag
                               [] randomGamertag) s2)
                     (\<lambda>_ s3. (Inr True, console_log (DummyCreated randomGamertag) s3))))))"

text \<open>Line 310.\<close>

definition markInitialized :: "env \<Rightarrow> state \<Rightarrow> outcome io" where
  "markInitialized en s =
     await (setItemAsync en FlagSet ''profile_initialized'' ''true'' s)
       (\<lambda>_ s1. (Inr Completed, s1))"

text \<open>Lines 159--310, the \<open>try\<close> block.\<close>

definition tryBody :: "env \<Rightarrow> state \<Rightarrow> outcome io" where
  "tryBody en s =
     await (getItemAsync en OriginRead ''portal_seed_origin'' s)
       (\<lambda>seedOrigin s1.
          await (resolveUsername en seedOrigin s1)
            (\<lambda>currentUsername s2.
               await (deleteItemAsync en OriginDelete ''portal_seed_origin'' s2)
                 (\<lambda>_ s3.
                    if js_trim currentUsername = [] then
                      (if seedOrigin = Some ''generated'' \<or> seedOrigin = Some ''imported'' then
                         await (createDummyProfile en s3)
                           (\<lambda>created s4.
                              if created then markInitialized en s4 else (Inr Aborted, s4))
                       else markInitialized en s3)
                    else markInitialized en (console_log (ExistingProfile currentUsername) s3))))"

text \<open>
  Lines 159--316: the \<open>try\<close> block with its \<open>catch\<close>, which logs the rejection, and its
  \<open>finally\<close>, which clears the latch on every way out of the block.
\<close>

definition runBody :: "env \<Rightarrow> state \<Rightarrow> outcome \<times> state" where
  "runBody en s =
     (case tryBody en s of
        (Inl e, s1) \<Rightarrow> (Failed e, (console_log (InitFailed e) s1)\<lparr>isInitializing := False\<rparr>)
      | (Inr r, s1) \<Rightarrow> (r, s1\<lparr>isInitializing := False\<rparr>))"

text \<open>
  Lines 131--317. The guard of lines 152--155 stands before the \<open>try\<close> block, so neither
  the \<open>catch\<close> nor the \<open>finally\<close> applies to it.
\<close>

definition initializeProfile :: "env \<Rightarrow> state \<Rightarrow> outcome \<times> state" where
  "initializeProfile en s =
     (if \<not> isInitialized en \<or> publicKey en = [] \<or> \<not> portalApp en then (NoOp, s)
      else if syncStatus en \<noteq> Idle then (NoOp, s)
      else if isInitializing s then (NoOp, console_log InProgressSkip s)
      else
        (let s1 = s\<lparr>isInitializing := True\<rparr> in
         case getItemAsync en GuardRead ''profile_initialized'' s1 of
           (Inl e, s2) \<Rightarrow> (Escaped e, s2)
         | (Inr hasInitialized, s2) \<Rightarrow>
             if hasInitialized = Some ''true'' then (AlreadyInitialized, s2)
             else runBody en s2))"

text \<open>The effect hook fires \<open>initializeProfile\<close> once per trigger event.\<close>

fun runTriggers :: "env list \<Rightarrow> state \<Rightarrow> state" where
  "runTriggers [] s = s"
| "runTriggers (en # ens) s = runTriggers ens (snd (initializeProfile en s))"

subsection \<open>Vocabulary of the properties\<close>

text \<open>
  The service-side trigger preconditions of lines 133 and 138 all hold: the service is
  initialized, has a public key and a \<open>portalApp\<close>, and \<open>syncStatus\<close> is \<open>'idle'\<close>.
\<close>

definition qualifies :: "env \<Rightarrow> bool" where
  "qualifies en \<longleftrightarrow>
     isInitialized en \<and> publicKey en \<noteq> [] \<and> portalApp en \<and> syncStatus en = Idle"

text \<open>The events of a trace that are connectivity checks, fetches and publishes.\<close>

definition checks :: "event list \<Rightarrow> nat" where
  "checks t = length (filter (\<lambda>e. e = RefreshConnectionStatus) t)"

fun isFetch :: "event \<Rightarrow> bool" where
  "isFetch (FetchProfile pk) = True"
| "isFetch e = False"

fun isPublish :: "event \<Rightarrow> bool" where
  "isPublish (SetUserProfile p) = True"
| "isPublish e = False"

definition fetches :: "event list \<Rightarrow> nat" where
  "fetches t = length (filter isFetch t)"

definition publishes :: "event list \<Rightarrow> nat" where
  "publishes t = length (filter isPublish t)"

text \<open>
  What the lookup of the username (lines 164--262) leaves alone: the latch, the
  completion flag, the seed origin, the console and the number of publishes; the trace
  only grows.
\<close>

definition untouched :: "state \<Rightarrow> state \<Rightarrow> bool" where
  "untouched s s' \<longleftrightarrow>
     isInitializing s' = isInitializing s
     \<and> store s' ''profile_initialized'' = store s ''profile_initialized''
     \<and> store s' ''portal_seed_origin'' = store s ''portal_seed_origin''
     \<and> console s' = console s
     \<and> publishes (trace s') = publishes (trace s)
     \<and> (\<exists>t. trace s' = trace s @ t)"

text \<open>
  What one run did: the calls it made and the messages it logged, and the four ways a run
  that reaches the flag-set can have dealt with the username. \<open>preservedLocal\<close>: the
  stored username was taken (it is logged as the existing profile), with no fetch, no
  publish and no change to it. \<open>adoptedNetwork\<close>: one fetch, which found a username, and
  that username was taken and is the one held and stored at the end, with no publish. \<open>generatedPublished\<close>: the generated tag was
  set as the username and published. \<open>nothingEstablished\<close>: the origin is neither
  \<open>"imported"\<close> nor \<open>"generated"\<close> and no non-blank username is stored
  (\<open>unresolvable\<close>), and the run fetched, published, logged and set nothing.
\<close>

definition runEvents :: "state \<Rightarrow> state \<Rightarrow> event list" where
  "runEvents s s' = drop (length (trace s)) (trace s')"

definition runLogs :: "state \<Rightarrow> state \<Rightarrow> log list" where
  "runLogs s s' = drop (length (console s)) (console s')"

definition preservedLocal :: "state \<Rightarrow> state \<Rightarrow> bool" where
  "preservedLocal s s' \<longleftrightarrow>
     fetches (runEvents s s') = 0 \<and> publishes (runEvents s s') = 0
     \<and> (case store s ''portal_username'' of
          None \<Rightarrow> False
        | Some u \<Rightarrow> runLogs s s' = [ExistingProfile u]
            \<and> store s' ''portal_username'' = Some u \<and> username s' = username s)"

definition adoptedNetwork :: "env \<Rightarrow> state \<Rightarrow> state \<Rightarrow> bool" where
  "adoptedNetwork en s s' \<longleftrightarrow>
     fetches (runEvents s s') = 1 \<and> publishes (runEvents s s') = 0
     \<and> found (fetchResult en)
     \<and> (case res_username (fetchResult en) of
          None \<Rightarrow> False
        | Some u \<Rightarrow> runLogs s s' = [ExistingProfile u]
            \<and> store s' ''portal_username'' = Some u \<and> username s' = u)"

definition generatedPublished :: "env \<Rightarrow> state \<Rightarrow> state \<Rightarrow> bool" where
  "generatedPublished en s s' \<longleftrightarrow>
     publishes (runEvents s s') = 1
     \<and> SetUsername (gamertag en) \<in> set (runEvents s s')
     \<and> SetUserProfile (NostrProfile (gamertag en @ ''@getportal.cc'') (gamertag en) []
          (gamertag en)) \<in> set (runEvents s s')
     \<and> username s' = gamertag en
     \<and> runLogs s s' = [DummyCreated (gamertag en)]"

definition unresolvable :: "state \<Rightarrow> bool" where
  "unresolvable s \<longleftrightarrow>
     store s ''portal_seed_origin'' \<noteq> Some ''imported''
     \<and> store s ''portal_seed_origin'' \<noteq> Some ''generated''
     \<and> js_trim (case store s ''portal_username'' of None \<Rightarrow> [] | Some u \<Rightarrow> u) = []"

definition nothingEstablished :: "state \<Rightarrow> state \<Rightarrow> bool" where
  "nothingEstablished s s' \<longleftrightarrow>
     unresolvable s
     \<and> fetches (runEvents s s') = 0 \<and> publishes (runEvents s s') = 0
     \<and> runLogs s s' = [] \<and> username s' = username s"

subsection \<open>Concrete surroundings and states\<close>

text \<open>
  A service that is ready, with no relay connected, no call rejecting, and a remote
  profile \<open>bob\<close>.
\<close>

definition readyEnv :: env where
  "readyEnv =
     \<lparr>isInitialized = True, publicKey = ''npub1'', portalApp = True, syncStatus = Idle,
      throws = (\<lambda>c. False), connectedCount = (\<lambda>k. 0), lag = (\<lambda>k. 0),
      fetchResult = \<lparr>found = True, res_username = Some ''bob''\<rparr>,
      gamertag = ''SwiftFox42'', concurrentFinish = False\<rparr>"

text \<open>A fresh process whose secure store holds the given entries.\<close>

definition freshState :: "(string \<times> string) list \<Rightarrow> state" where
  "freshState kvs =
     \<lparr>store = map_of kvs, username = [], isInitializing = False, now = 0, trace = [],
      console = []\<rparr>"

text \<open>The same service, with \<open>setUserProfile\<close> rejecting.\<close>

definition publishFailsEnv :: env where
  "publishFailsEnv = readyEnv\<lparr>throws := (\<lambda>c. c = Publish)\<rparr>"

text \<open>
  A service with a relay connected at the first check, no remote profile, and
  \<open>setUserProfile\<close> rejecting.
\<close>

definition missThenPublishFailsEnv :: env where
  "missThenPublishFailsEnv =
     readyEnv\<lparr>throws := (\<lambda>c. c = Publish), connectedCount := (\<lambda>k. 1),
       fetchResult := \<lparr>found = False, res_username = None\<rparr>\<rparr>"

text \<open>The same service, with the read of line 152 rejecting.\<close>

definition guardFailsEnv :: env where
  "guardFailsEnv = readyEnv\<lparr>throws := (\<lambda>c. c = GuardRead)\<rparr>"

text \<open>A service during whose run another initialization finishes.\<close>

definition racingEnv :: env where
  "racingEnv = readyEnv\<lparr>concurrentFinish := True\<rparr>"

text \<open>A service with a relay connected at the first check and the remote profile \<open>bob\<close>.\<close>

definition connectedEnv :: env where
  "connectedEnv = readyEnv\<lparr>connectedCount := (\<lambda>k. 1)\<rparr>"

section \<open>Properties\<close>

lemmas call_defs = getItemAsync_def setItemAsync_def deleteItemAsync_def setUsername_def
  fetchProfile_def setUserProfile_def emit_def console_log_def await_def Let_def

subsection \<open>Counting events\<close>

lemma checks_Cons [simp]:
  "checks (e # t) = (if e = RefreshConnectionStatus then 1 else 0) + checks t"
  by (simp add: checks_def)

lemma checks_Nil [simp]: "checks [] = 0"
  by (simp add: checks_def)

lemma fetches_Cons [simp]: "fetches (e # t) = (if isFetch e then 1 else 0) + fetches t"
  by (simp add: fetches_def)

lemma fetches_Nil [simp]: "fetches [] = 0"
  by (simp add: fetches_def)

lemma publishes_Cons [simp]: "publishes (e # t) = (if isPublish e then 1 else 0) + publishes t"
  by (simp add: publishes_def)

lemma publishes_Nil [simp]: "publishes [] = 0"
  by (simp add: publishes_def)

lemma fetches_append [simp]: "fetches (t @ u) = fetches t + fetches u"
  by (simp add: fetches_def)

lemma fetches_replicate [simp]: "fetches (replicate n RefreshConnectionStatus) = 0"
  by (simp add: fetches_def)

lemma publishes_append [simp]: "publishes (t @ u) = publishes t + publishes u"
  by (simp add: publishes_def)

lemma publishes_replicate [simp]: "publishes (replicate n RefreshConnectionStatus) = 0"
  by (simp add: publishes_def)

lemma checks_append [simp]: "checks (t @ u) = checks t + checks u"
  by (simp add: checks_def)

lemma checks_replicate [simp]: "checks (replicate n RefreshConnectionStatus) = n"
  by (simp add: checks_def)

subsection \<open>The trigger preconditions and the guard\<close>

text \<open>
  C9. When \<open>nostrService.portalApp\<close> is null the trigger is a no-op: the function returns
  at line 134 with the state untouched (no store access, no network call, the latch as it
  was), whatever the other preconditions are.
\<close>

theorem missing_portalApp_is_noop:
  "\<not> portalApp en \<Longrightarrow> initializeProfile en s = (NoOp, s)"
  by (simp add: initializeProfile_def)

theorem missing_portalApp_is_noop_witness:
  "qualifies readyEnv \<and> \<not> isInitializing (freshState [(''portal_seed_origin'', ''generated'')])
   \<and> \<not> portalApp (readyEnv\<lparr>portalApp := False\<rparr>)
   \<and> initializeProfile (readyEnv\<lparr>portalApp := False\<rparr>)
         (freshState [(''portal_seed_origin'', ''generated'')])
       = (NoOp, freshState [(''portal_seed_origin'', ''generated'')])"
  using missing_portalApp_is_noop
    [of "readyEnv\<lparr>portalApp := False\<rparr>" "freshState [(''portal_seed_origin'', ''generated'')]"]
  by (simp add: readyEnv_def qualifies_def freshState_def)

text \<open>
  C3. On a run whose guard finds \<open>profile_initialized\<close> already \<open>"true"\<close>, the function
  returns at line 154, before the \<open>try\<close> block: the latch set at line 149 is not cleared.
  The run below starts with the latch clear and ends with it set.
\<close>

theorem guard_return_leaves_latch_set:
  "initializeProfile readyEnv (freshState [(''profile_initialized'', ''true'')])
     = (AlreadyInitialized,
        (freshState [(''profile_initialized'', ''true'')])
          \<lparr>isInitializing := True, trace := [StoreGet ''profile_initialized'']\<rparr>)"
  by (simp add: initializeProfile_def readyEnv_def freshState_def call_defs)

theorem guard_return_leaves_latch_set_witness:
  "\<not> isInitializing (freshState [(''profile_initialized'', ''true'')])
   \<and> fst (initializeProfile readyEnv (freshState [(''profile_initialized'', ''true'')]))
       = AlreadyInitialized
   \<and> isInitializing
        (snd (initializeProfile readyEnv (freshState [(''profile_initialized'', ''true'')])))"
  using guard_return_leaves_latch_set
  by (simp add: freshState_def)

text \<open>
  One trigger on an installation whose flag is \<open>"true"\<close>: the store and the username stay
  as they are, and the only call made is at most one read of the flag.
\<close>

lemma initialized_run:
  assumes "store s ''profile_initialized'' = Some ''true''"
  shows "\<exists>n. store (snd (initializeProfile en s)) = store s
     \<and> username (snd (initializeProfile en s)) = username s
     \<and> trace (snd (initializeProfile en s))
         = trace s @ replicate n (StoreGet ''profile_initialized'')"
proof (cases "qualifies en \<and> \<not> isInitializing s")
  case False
  then have "trace (snd (initializeProfile en s))
        = trace s @ replicate 0 (StoreGet ''profile_initialized'')
      \<and> store (snd (initializeProfile en s)) = store s
      \<and> username (snd (initializeProfile en s)) = username s"
    by (auto simp: initializeProfile_def qualifies_def console_log_def)
  then show ?thesis by blast
next
  case True
  with assms have "trace (snd (initializeProfile en s))
        = trace s @ replicate 1 (StoreGet ''profile_initialized'')
      \<and> store (snd (initializeProfile en s)) = store s
      \<and> username (snd (initializeProfile en s)) = username s"
    by (auto simp: initializeProfile_def qualifies_def call_defs)
  then show ?thesis by blast
qed

text \<open>
  C7. Once \<open>profile_initialized\<close> is \<open>"true"\<close>, any sequence of trigger events leaves the
  secure store and the username unchanged, and every call the runs make is a read of the
  flag: no write, no delete, no \<open>fetchProfile\<close>, no \<open>setUserProfile\<close>, no \<open>setUsername\<close>.
\<close>

theorem initialized_triggers_have_no_effect:
  "store s ''profile_initialized'' = Some ''true'' \<Longrightarrow>
     store (runTriggers ens s) = store s
     \<and> username (runTriggers ens s) = username s
     \<and> (\<exists>n. trace (runTriggers ens s) = trace s @ replicate n (StoreGet ''profile_initialized''))"
proof (induction ens arbitrary: s)
  case Nil
  then show ?case by simp
next
  case (Cons en ens)
  let ?s1 = "snd (initializeProfile en s)"
  from initialized_run [OF Cons.prems, of en] obtain n where
    s1: "store ?s1 = store s" "username ?s1 = username s"
      "trace ?s1 = trace s @ replicate n (StoreGet ''profile_initialized'')"
    by blast
  from s1(1) Cons.prems have "store ?s1 ''profile_initialized'' = Some ''true''"
    by simp
  from Cons.IH [OF this] obtain m where
    "store (runTriggers ens ?s1) = store ?s1" "username (runTriggers ens ?s1) = username ?s1"
    "trace (runTriggers ens ?s1) = trace ?s1 @ replicate m (StoreGet ''profile_initialized'')"
    by blast
  with s1 have "store (runTriggers (en # ens) s) = store s"
    "username (runTriggers (en # ens) s) = username s"
    "trace (runTriggers (en # ens) s)
       = trace s @ replicate (n + m) (StoreGet ''profile_initialized'')"
    by (simp_all add: replicate_add)
  then show ?case by blast
qed

theorem initialized_triggers_have_no_effect_witness:
  "store (freshState [(''profile_initialized'', ''true''), (''portal_seed_origin'', ''imported'')])
      ''profile_initialized'' = Some ''true''
   \<and> store (runTriggers [readyEnv, readyEnv\<lparr>syncStatus := OtherStatus\<rparr>, readyEnv]
        (freshState [(''profile_initialized'', ''true''), (''portal_seed_origin'', ''imported'')]))
      = store (freshState [(''profile_initialized'', ''true''), (''portal_seed_origin'', ''imported'')])
   \<and> username (runTriggers [readyEnv, readyEnv\<lparr>syncStatus := OtherStatus\<rparr>, readyEnv]
        (freshState [(''profile_initialized'', ''true''), (''portal_seed_origin'', ''imported'')]))
      = []
   \<and> trace (runTriggers [readyEnv, readyEnv\<lparr>syncStatus := OtherStatus\<rparr>, readyEnv]
        (freshState [(''profile_initialized'', ''true''), (''portal_seed_origin'', ''imported'')]))
      = [StoreGet ''profile_initialized'']"
  using initialized_triggers_have_no_effect
    [of "freshState [(''profile_initialized'', ''true''), (''portal_seed_origin'', ''imported'')]"
        "[readyEnv, readyEnv\<lparr>syncStatus := OtherStatus\<rparr>, readyEnv]"]
  by (simp add: freshState_def readyEnv_def initializeProfile_def call_defs)

subsection \<open>The branch for a seed that was not imported\<close>

lemma js_trim_placeholder: "js_trim ''Loading...'' \<noteq> []"
  by (simp add: js_trim_def js_whitespace_def)

text \<open>
  C10. The branch for an origin other than \<open>"imported"\<close> (line 261) takes the stored
  \<open>portal_username\<close> without the filter of lines 172--176. With origin \<open>"generated"\<close> and
  the placeholder \<open>"Loading..."\<close> stored, a run in which no call rejects takes
  \<open>"Loading..."\<close> as \<open>currentUsername\<close> (it is logged as the existing profile at line 306),
  sets and publishes no profile, and sets \<open>profile_initialized\<close> to \<open>"true"\<close>: these five
  store calls are all it does.
\<close>

theorem generated_origin_adopts_placeholder:
  assumes "qualifies en" and "\<not> isInitializing s"
    and "store s ''profile_initialized'' \<noteq> Some ''true''"
    and "store s ''portal_seed_origin'' = Some ''generated''"
    and "store s ''portal_username'' = Some ''Loading...''"
    and "\<forall>c. \<not> throws en c"
  shows "initializeProfile en s =
     (Completed,
      s\<lparr>store := (store s)(''portal_seed_origin'' := None, ''profile_initialized'' \<mapsto> ''true''),
        trace := trace s @ [StoreGet ''profile_initialized'', StoreGet ''portal_seed_origin'',
          StoreGet ''portal_username'', StoreDelete ''portal_seed_origin'',
          StoreSet ''profile_initialized'' ''true''],
        console := console s @ [ExistingProfile ''Loading...'']\<rparr>)"
  using assms js_trim_placeholder
  by (simp add: initializeProfile_def runBody_def tryBody_def resolveUsername_def
      markInitialized_def qualifies_def call_defs)

theorem generated_origin_adopts_placeholder_witness:
  "qualifies readyEnv
   \<and> \<not> isInitializing (freshState [(''portal_seed_origin'', ''generated''), (''portal_username'', ''Loading...'')])
   \<and> store (freshState [(''portal_seed_origin'', ''generated''), (''portal_username'', ''Loading...'')])
        ''profile_initialized'' \<noteq> Some ''true''
   \<and> store (freshState [(''portal_seed_origin'', ''generated''), (''portal_username'', ''Loading...'')])
        ''portal_seed_origin'' = Some ''generated''
   \<and> store (freshState [(''portal_seed_origin'', ''generated''), (''portal_username'', ''Loading...'')])
        ''portal_username'' = Some ''Loading...''
   \<and> (\<forall>c. \<not> throws readyEnv c)
   \<and> fst (initializeProfile readyEnv
        (freshState [(''portal_seed_origin'', ''generated''), (''portal_username'', ''Loading...'')]))
      = Completed
   \<and> console (snd (initializeProfile readyEnv
        (freshState [(''portal_seed_origin'', ''generated''), (''portal_username'', ''Loading...'')])))
      = [ExistingProfile ''Loading...'']
   \<and> publishes (trace (snd (initializeProfile readyEnv
        (freshState [(''portal_seed_origin'', ''generated''), (''portal_username'', ''Loading...'')]))))
      = 0
   \<and> store (snd (initializeProfile readyEnv
        (freshState [(''portal_seed_origin'', ''generated''), (''portal_username'', ''Loading...'')])))
        ''profile_initialized'' = Some ''true''"
  using generated_origin_adopts_placeholder
    [of readyEnv "freshState [(''portal_seed_origin'', ''generated''), (''portal_username'', ''Loading...'')]"]
  by (simp add: freshState_def readyEnv_def qualifies_def)

subsection \<open>The bounded wait\<close>

lemma checkConnection_frame:
  "checkConnection en k s = (r, s') \<Longrightarrow>
     store s' = store s \<and> username s' = username s \<and> isInitializing s' = isInitializing s
     \<and> console s' = console s \<and> trace s' = trace s @ [RefreshConnectionStatus]"
  by (auto simp: checkConnection_def refreshConnectionStatus_def sleep_def call_defs
      split: if_splits)

lemma checkConnection_ok:
  "\<not> throws en (Refresh k) \<Longrightarrow>
     checkConnection en k s =
       (Inr (0 < connectedCount en k),
        s\<lparr>now := now s + lag en k + 100, trace := trace s @ [RefreshConnectionStatus]\<rparr>)"
  by (simp add: checkConnection_def refreshConnectionStatus_def sleep_def call_defs)

lemma waitLoop_frame:
  "waitLoop en st k s = (r, s') \<Longrightarrow>
     store s' = store s \<and> username s' = username s \<and> isInitializing s' = isInitializing s
     \<and> console s' = console s \<and> (\<exists>n. trace s' = trace s @ replicate n RefreshConnectionStatus)"
proof (induction en st k s rule: waitLoop.induct)
  case (1 en st k s)
  show ?case
  proof (cases "now s - st < maxWait")
    case False
    with "1.prems" have "s' = s" by (simp add: waitLoop.simps)
    then have "trace s' = trace s @ replicate 0 RefreshConnectionStatus" by simp
    with \<open>s' = s\<close> show ?thesis by blast
  next
    case True
    obtain x s1 where c: "checkConnection en k (sleep checkInterval s) = (x, s1)"
      by (cases "checkConnection en k (sleep checkInterval s)")
    from checkConnection_frame [OF c]
    have f1: "store s1 = store s" "username s1 = username s" "isInitializing s1 = isInitializing s"
      "console s1 = console s" "trace s1 = trace s @ replicate 1 RefreshConnectionStatus"
      by (simp_all add: sleep_def)
    show ?thesis
    proof (cases "x = Inr False")
      case False
      with True c "1.prems" have "s' = s1"
        by (cases x) (auto simp: waitLoop.simps split: if_splits)
      with f1 show ?thesis by blast
    next
      case xf: True
      with True c "1.prems" have w: "waitLoop en st (Suc k) s1 = (r, s')"
        by (simp add: waitLoop.simps)
      have nf: "\<not> False" by simp
      from "1.IH" [OF True c [symmetric] xf nf w]
      obtain n where "store s' = store s1" "username s' = username s1"
        "isInitializing s' = isInitializing s1" "console s' = console s1"
        "trace s' = trace s1 @ replicate n RefreshConnectionStatus"
        by auto
      with f1 have "store s' = store s" "username s' = username s"
        "isInitializing s' = isInitializing s" "console s' = console s"
        "trace s' = trace s @ replicate (1 + n) RefreshConnectionStatus"
        by (simp_all only: replicate_add append_assoc)
      then show ?thesis by blast
    qed
  qed
qed

lemma waitLoop_bound:
  "waitLoop en st k s = (r, s') \<Longrightarrow> 1 \<le> k \<Longrightarrow> k \<le> 10 \<Longrightarrow>
     st + 100 + 1100 * (k - 1) \<le> now s \<Longrightarrow>
     checks (trace s') + k \<le> checks (trace s) + 10"
proof (induction en st k s rule: waitLoop.induct)
  case (1 en st k s)
  show ?case
  proof (cases "now s - st < maxWait")
    case False
    with "1.prems" show ?thesis by (simp add: waitLoop.simps)
  next
    case True
    with "1.prems" have k9: "k \<le> 9" by (simp add: maxWait_def)
    obtain x s1 where c: "checkConnection en k (sleep checkInterval s) = (x, s1)"
      by (cases "checkConnection en k (sleep checkInterval s)")
    from checkConnection_frame [OF c]
    have t1: "checks (trace s1) = checks (trace s) + 1"
      by (simp add: sleep_def checks_def)
    show ?thesis
    proof (cases "x = Inr False")
      case False
      with True c "1.prems" have "s' = s1"
        by (cases x) (auto simp: waitLoop.simps split: if_splits)
      with t1 k9 show ?thesis by simp
    next
      case xf: True
      with True c "1.prems" have w: "waitLoop en st (Suc k) s1 = (r, s')"
        by (simp add: waitLoop.simps)
      have nf: "\<not> False" by simp
      from c xf checkConnection_now_ok have "now (sleep checkInterval s) + 100 \<le> now s1"
        by blast
      with "1.prems" have "st + 100 + 1100 * (Suc k - 1) \<le> now s1"
        by (simp add: sleep_def checkInterval_def)
      from "1.IH" [OF True c [symmetric] xf nf w _ _ this] k9
      have "checks (trace s') + Suc k \<le> checks (trace s1) + 10" by simp
      with t1 show ?thesis by simp
    qed
  qed
qed

lemma waitLoop_ok:
  "\<forall>j. \<not> throws en (Refresh j) \<Longrightarrow>
   \<exists>b m. waitLoop en st k s =
           (Inr b, s\<lparr>now := now s + m * (checkInterval + 100) + sum (lag en) {k..<k + m},
                     trace := trace s @ replicate m RefreshConnectionStatus\<rparr>)
         \<and> (\<forall>j. k \<le> j \<and> j + 1 < k + m \<longrightarrow> connectedCount en j = 0)
         \<and> (b \<longrightarrow> 0 < m \<and> 0 < connectedCount en (k + m - 1))
         \<and> (\<not> b \<longrightarrow> maxWait \<le> now s + m * (checkInterval + 100) + sum (lag en) {k..<k + m} - st
               \<and> (\<forall>j. k \<le> j \<and> j < k + m \<longrightarrow> connectedCount en j = 0))"
proof (induction en st k s rule: waitLoop.induct)
  case (1 en st k s)
  note nt = "1.prems"
  show ?case
  proof (cases "now s - st < maxWait")
    case False
    then have "waitLoop en st k s = (Inr False,
        s\<lparr>now := now s + 0 * (checkInterval + 100) + sum (lag en) {k..<k + 0},
          trace := trace s @ replicate 0 RefreshConnectionStatus\<rparr>)"
      by (simp add: waitLoop.simps)
    moreover from False have
      "maxWait \<le> now s + 0 * (checkInterval + 100) + sum (lag en) {k..<k + 0} - st"
      by simp
    ultimately show ?thesis by (intro exI [of _ False] exI [of _ 0]) simp
  next
    case True
    let ?s1 = "s\<lparr>now := now s + checkInterval + lag en k + 100,
                  trace := trace s @ [RefreshConnectionStatus]\<rparr>"
    from nt have c: "checkConnection en k (sleep checkInterval s)
        = (Inr (0 < connectedCount en k), ?s1)"
      by (simp add: checkConnection_ok sleep_def)
    show ?thesis
    proof (cases "0 < connectedCount en k")
      case pos: True
      with True c have "waitLoop en st k s = (Inr True,
        s\<lparr>now := now s + 1 * (checkInterval + 100) + sum (lag en) {k..<k + 1},
          trace := trace s @ replicate 1 RefreshConnectionStatus\<rparr>)"
        by (simp add: waitLoop.simps)
      with pos show ?thesis by (intro exI [of _ True] exI [of _ 1]) simp
    next
      case zero: False
      with True c have w: "waitLoop en st k s = waitLoop en st (Suc k) ?s1"
        by (simp add: waitLoop.simps)
      have nf: "\<not> False" by simp
      from zero have xf: "Inr (0 < connectedCount en k) = (Inr False :: error + bool)" by simp
      from "1.IH" [OF True c [symmetric] xf nf] nt
      obtain b m where
        r: "waitLoop en st (Suc k) ?s1 =
           (Inr b, ?s1\<lparr>now := now ?s1 + m * (checkInterval + 100) + sum (lag en) {Suc k..<Suc k + m},
                     trace := trace ?s1 @ replicate m RefreshConnectionStatus\<rparr>)"
        and a: "\<forall>j. Suc k \<le> j \<and> j + 1 < Suc k + m \<longrightarrow> connectedCount en j = 0"
        and bt: "b \<longrightarrow> 0 < m \<and> 0 < connectedCount en (Suc k + m - 1)"
        and bf: "\<not> b \<longrightarrow> maxWait \<le> now ?s1 + m * (checkInterval + 100) + sum (lag en) {Suc k..<Suc k + m} - st
               \<and> (\<forall>j. Suc k \<le> j \<and> j < Suc k + m \<longrightarrow> connectedCount en j = 0)"
        by blast
      have sm: "sum (lag en) {k..<k + Suc m} = lag en k + sum (lag en) {Suc k..<Suc k + m}"
        by (simp add: sum.atLeast_Suc_lessThan)
      have t: "now ?s1 + m * (checkInterval + 100) + sum (lag en) {Suc k..<Suc k + m}
          = now s + Suc m * (checkInterval + 100) + sum (lag en) {k..<k + Suc m}"
        unfolding sm by simp
      from r w t have "waitLoop en st k s =
           (Inr b, s\<lparr>now := now s + Suc m * (checkInterval + 100) + sum (lag en) {k..<k + Suc m},
                     trace := trace s @ replicate (Suc m) RefreshConnectionStatus\<rparr>)"
        by (simp add: replicate_app_Cons_same)
      moreover from a zero have "\<forall>j. k \<le> j \<and> j + 1 < k + Suc m \<longrightarrow> connectedCount en j = 0"
        by (metis Suc_leI add_Suc add_Suc_right le_neq_implies_less neq0_conv)
      moreover from bt have "b \<longrightarrow> 0 < Suc m \<and> 0 < connectedCount en (k + Suc m - 1)"
        by auto
      moreover from bf zero t have "\<not> b \<longrightarrow>
          maxWait \<le> now s + Suc m * (checkInterval + 100) + sum (lag en) {k..<k + Suc m} - st
          \<and> (\<forall>j. k \<le> j \<and> j < k + Suc m \<longrightarrow> connectedCount en j = 0)"
        by (metis Suc_leI add_Suc add_Suc_right le_neq_implies_less neq0_conv)
      ultimately show ?thesis by blast
    qed
  qed
qed

lemma fetchFromNetwork_fetches:
  "fetches (trace (snd (fetchFromNetwork en s))) = Suc (fetches (trace s))"
  by (simp add: fetchFromNetwork_def call_defs fetches_def split: option.splits)

lemma waitForRelayConnection_ok:
  assumes nt: "\<forall>j. \<not> throws en (Refresh j)"
  shows "\<exists>b n. waitForRelayConnection en s =
            (Inr b, s\<lparr>now := now s + 100 + (n - 1) * (checkInterval + 100) + sum (lag en) {..<n},
                      trace := trace s @ replicate n RefreshConnectionStatus\<rparr>)
          \<and> 1 \<le> n \<and> n \<le> 10
          \<and> (\<forall>j. j + 1 < n \<longrightarrow> connectedCount en j = 0)
          \<and> (b \<longleftrightarrow> 0 < connectedCount en (n - 1))
          \<and> (\<not> b \<longrightarrow> maxWait \<le> 100 + (n - 1) * (checkInterval + 100) + sum (lag en) {..<n})"
proof -
  let ?s1 = "s\<lparr>now := now s + lag en 0 + 100, trace := trace s @ [RefreshConnectionStatus]\<rparr>"
  from nt have c: "checkConnection en 0 s = (Inr (0 < connectedCount en 0), ?s1)"
    by (simp add: checkConnection_ok)
  show ?thesis
  proof (cases "0 < connectedCount en 0")
    case True
    with c have "waitForRelayConnection en s =
        (Inr True, s\<lparr>now := now s + 100 + (1 - 1) * (checkInterval + 100) + sum (lag en) {..<1},
                      trace := trace s @ replicate 1 RefreshConnectionStatus\<rparr>)"
      by (simp add: waitForRelayConnection_def await_def)
    with True show ?thesis by (intro exI [of _ True] exI [of _ 1]) simp
  next
    case zero: False
    with c have w: "waitForRelayConnection en s = waitLoop en (now s) 1 ?s1"
      by (simp add: waitForRelayConnection_def await_def)
    from waitLoop_ok [OF nt, of "now s" 1 ?s1] obtain b m where
      r: "waitLoop en (now s) 1 ?s1 =
           (Inr b, ?s1\<lparr>now := now ?s1 + m * (checkInterval + 100) + sum (lag en) {1..<1 + m},
                     trace := trace ?s1 @ replicate m RefreshConnectionStatus\<rparr>)"
      and a: "\<forall>j. 1 \<le> j \<and> j + 1 < 1 + m \<longrightarrow> connectedCount en j = 0"
      and bt: "b \<longrightarrow> 0 < m \<and> 0 < connectedCount en (1 + m - 1)"
      and bf: "\<not> b \<longrightarrow> maxWait \<le> now ?s1 + m * (checkInterval + 100) + sum (lag en) {1..<1 + m} - now s
               \<and> (\<forall>j. 1 \<le> j \<and> j < 1 + m \<longrightarrow> connectedCount en j = 0)"
      by blast
    have "now s + 100 + 1100 * (1 - 1) \<le> now ?s1" by simp
    from waitLoop_bound [OF r _ _ this] have m9: "m \<le> 9" by simp
    have sm: "sum (lag en) {..<Suc m} = lag en 0 + sum (lag en) {1..<1 + m}"
      by (simp add: lessThan_atLeast0 sum.atLeast_Suc_lessThan)
    have t: "now ?s1 + m * (checkInterval + 100) + sum (lag en) {1..<1 + m}
        = now s + 100 + (Suc m - 1) * (checkInterval + 100) + sum (lag en) {..<Suc m}"
      unfolding sm by simp
    from r w t have "waitForRelayConnection en s =
            (Inr b, s\<lparr>now := now s + 100 + (Suc m - 1) * (checkInterval + 100) + sum (lag en) {..<Suc m},
                      trace := trace s @ replicate (Suc m) RefreshConnectionStatus\<rparr>)"
      by (simp add: replicate_app_Cons_same)
    moreover from m9 have "1 \<le> Suc m \<and> Suc m \<le> 10" by simp
    moreover from a zero have "\<forall>j. j + 1 < Suc m \<longrightarrow> connectedCount en j = 0"
      by (metis One_nat_def Suc_eq_plus1 Suc_leI add.commute neq0_conv)
    moreover from bt bf zero have "b \<longleftrightarrow> 0 < connectedCount en (Suc m - 1)"
      by (cases m) auto
    moreover from bf t have "\<not> b \<longrightarrow>
        maxWait \<le> 100 + (Suc m - 1) * (checkInterval + 100) + sum (lag en) {..<Suc m}"
      by auto
    ultimately show ?thesis by blast
  qed
qed

text \<open>
  C6. When no \<open>refreshConnectionStatus\<close> call rejects, the wait returns. It makes \<open>n\<close>
  checks with \<open>1 \<le> n \<le> 10\<close>: the first at once, each later one after a timer of
  \<open>checkInterval\<close> = 1000 ms (and every check ends with a 100 ms pause, which is what keeps
  the count at 10 within \<open>maxWait\<close>). Every check but the last read \<open>connectedCount = 0\<close>,
  the result says whether the last one read a positive count, and a negative result comes
  only once \<open>maxWait\<close> has passed. Whatever the result, the lookup goes on to exactly one
  \<open>fetchProfile\<close> call.
\<close>

theorem bounded_wait_then_fetch:
  assumes "\<forall>j. \<not> throws en (Refresh j)" and "\<not> throws en SetLoading"
  shows "(\<exists>b n. waitForRelayConnection en s =
            (Inr b, s\<lparr>now := now s + 100 + (n - 1) * (checkInterval + 100) + sum (lag en) {..<n},
                      trace := trace s @ replicate n RefreshConnectionStatus\<rparr>)
          \<and> 1 \<le> n \<and> n \<le> 10
          \<and> (\<forall>j. j + 1 < n \<longrightarrow> connectedCount en j = 0)
          \<and> (b \<longleftrightarrow> 0 < connectedCount en (n - 1))
          \<and> (\<not> b \<longrightarrow> maxWait \<le> 100 + (n - 1) * (checkInterval + 100) + sum (lag en) {..<n}))
     \<and> fetches (trace (snd (networkLookup en s))) = Suc (fetches (trace s))"
proof -
  let ?s1 = "s\<lparr>trace := trace s @ [SetUsername ''Loading...''], username := ''Loading...'',
      store := (store s)(''portal_username'' \<mapsto> ''Loading...'')\<rparr>"
  from waitForRelayConnection_ok [OF assms(1), of ?s1] obtain b n where
    "waitForRelayConnection en ?s1 =
       (Inr b, ?s1\<lparr>now := now ?s1 + 100 + (n - 1) * (checkInterval + 100) + sum (lag en) {..<n},
                 trace := trace ?s1 @ replicate n RefreshConnectionStatus\<rparr>)"
    by blast
  with assms(2) have "fetches (trace (snd (networkLookup en s))) = Suc (fetches (trace s))"
    by (simp add: networkLookup_def setUsername_def emit_def await_def fetchFromNetwork_fetches)
  with waitForRelayConnection_ok [OF assms(1), of s] show ?thesis
    by blast
qed

theorem bounded_wait_then_fetch_witness:
  "(\<forall>j. \<not> throws readyEnv (Refresh j)) \<and> \<not> throws readyEnv SetLoading
   \<and> waitForRelayConnection readyEnv (freshState [])
       = (Inr False, (freshState [])\<lparr>now := 10000, trace := replicate 10 RefreshConnectionStatus\<rparr>)
   \<and> fetches (trace (snd (networkLookup readyEnv (freshState [])))) = 1"
proof -
  have h: "\<forall>j. \<not> throws readyEnv (Refresh j)" "\<not> throws readyEnv SetLoading"
    by (simp_all add: readyEnv_def)
  from bounded_wait_then_fetch [OF h, of "freshState []"] obtain b n where
    w: "waitForRelayConnection readyEnv (freshState []) =
          (Inr b, (freshState [])\<lparr>now := now (freshState []) + 100 + (n - 1) * (checkInterval + 100)
                      + sum (lag readyEnv) {..<n},
                    trace := trace (freshState []) @ replicate n RefreshConnectionStatus\<rparr>)"
    and n: "1 \<le> n" "n \<le> 10"
    and b: "b \<longleftrightarrow> 0 < connectedCount readyEnv (n - 1)"
    and t: "\<not> b \<longrightarrow> maxWait \<le> 100 + (n - 1) * (checkInterval + 100) + sum (lag readyEnv) {..<n}"
    and f: "fetches (trace (snd (networkLookup readyEnv (freshState [])))) = Suc (fetches (trace (freshState [])))"
    by blast
  from b have nb: "\<not> b" by (simp add: readyEnv_def)
  with t n have "n = 10" by (simp add: readyEnv_def maxWait_def checkInterval_def)
  with w nb f h show ?thesis
    by (simp add: readyEnv_def freshState_def checkInterval_def)
qed

subsection \<open>What the lookup of the username leaves alone\<close>

lemma untouched_trans: "untouched s s1 \<Longrightarrow> untouched s1 s2 \<Longrightarrow> untouched s s2"
  by (auto simp: untouched_def)

lemma waitForRelayConnection_frame:
  assumes "waitForRelayConnection en s = (r, s')"
  shows "store s' = store s \<and> username s' = username s \<and> isInitializing s' = isInitializing s
     \<and> console s' = console s \<and> (\<exists>n. trace s' = trace s @ replicate n RefreshConnectionStatus)"
proof -
  obtain x s1 where c: "checkConnection en 0 s = (x, s1)"
    by (cases "checkConnection en 0 s")
  from checkConnection_frame [OF c]
  have f1: "store s1 = store s" "username s1 = username s" "isInitializing s1 = isInitializing s"
    "console s1 = console s" "trace s1 = trace s @ replicate 1 RefreshConnectionStatus"
    by simp_all
  show ?thesis
  proof (cases "x = Inr False")
    case False
    with c assms have "s' = s1"
      by (cases x) (auto simp: waitForRelayConnection_def await_def split: if_splits)
    with f1 show ?thesis by blast
  next
    case True
    with c assms have "waitLoop en (now s) 1 s1 = (r, s')"
      by (simp add: waitForRelayConnection_def await_def)
    from waitLoop_frame [OF this] obtain n where "store s' = store s1" "username s' = username s1"
      "isInitializing s' = isInitializing s1" "console s' = console s1"
      "trace s' = trace s1 @ replicate n RefreshConnectionStatus"
      by auto
    with f1 have "store s' = store s" "username s' = username s"
      "isInitializing s' = isInitializing s" "console s' = console s"
      "trace s' = trace s @ replicate (1 + n) RefreshConnectionStatus"
      by (simp_all only: replicate_add append_assoc)
    then show ?thesis by blast
  qed
qed

lemma waitForRelayConnection_untouched:
  "waitForRelayConnection en s = (r, s') \<Longrightarrow> untouched s s'"
  by (drule waitForRelayConnection_frame) (auto simp: untouched_def)

lemma setUsername_untouched: "setUsername en c v s = (r, s') \<Longrightarrow> untouched s s'"
  by (auto simp: setUsername_def emit_def Let_def untouched_def split: if_splits)

lemma fetchFromNetwork_untouched: "fetchFromNetwork en s = (r, s') \<Longrightarrow> untouched s s'"
  by (auto simp: fetchFromNetwork_def call_defs untouched_def
      split: if_splits option.splits)

lemma networkLookup_untouched:
  assumes "networkLookup en s = (r, s')"
  shows "untouched s s'"
proof -
  obtain x s1 where a: "setUsername en SetLoading ''Loading...'' s = (x, s1)"
    by (cases "setUsername en SetLoading ''Loading...'' s")
  note u1 = setUsername_untouched [OF a]
  show ?thesis
  proof (cases x)
    case (Inl e)
    with a assms have "s' = s1" by (simp add: networkLookup_def await_def)
    with u1 show ?thesis by simp
  next
    case (Inr u)
    obtain y s2 where b: "waitForRelayConnection en s1 = (y, s2)"
      by (cases "waitForRelayConnection en s1")
    note u2 = untouched_trans [OF u1 waitForRelayConnection_untouched [OF b]]
    show ?thesis
    proof (cases y)
      case (Inl e)
      with Inr a b assms have "s' = s2" by (simp add: networkLookup_def await_def)
      with u2 show ?thesis by simp
    next
      case inr: (Inr h)
      with Inr a b assms have "fetchFromNetwork en s2 = (r, s')"
        by (simp add: networkLookup_def await_def)
      from untouched_trans [OF u2 fetchFromNetwork_untouched [OF this]] show ?thesis .
    qed
  qed
qed

lemma resolveUsername_untouched:
  assumes "resolveUsername en seedOrigin s = (r, s')"
  shows "untouched s s'"
proof (cases "seedOrigin = Some ''imported'' \<and> \<not> throws en LocalRead
    \<and> \<not> usableLocalUsername (store s ''portal_username'')")
  case True
  with assms have "networkLookup en (emit (StoreGet ''portal_username'') s) = (r, s')"
    by (simp add: resolveUsername_def resolveImported_def getItemAsync_def await_def Let_def
        emit_def)
  from networkLookup_untouched [OF this] show ?thesis
    by (auto simp: untouched_def emit_def)
next
  case False
  with assms show ?thesis
    by (auto simp: resolveUsername_def resolveImported_def getItemAsync_def await_def Let_def
        emit_def untouched_def split: if_splits)
qed

subsection \<open>The \<open>try\<close> block, case by case\<close>

text \<open>
  Every run of the \<open>try\<close> block ends in one of eight ways: a rejection at one of four
  places, the early \<open>return\<close>, or the flag-set reached on one of three paths.
\<close>

lemma tryBody_cases [consumes 1, case_names origin_rejected lookup_rejected delete_rejected
    existing unresolved dummy_rejected aborted created]:
  assumes "tryBody en s = (r, s')"
  obtains
    e where "getItemAsync en OriginRead ''portal_seed_origin'' s = (Inl e, s')" "r = Inl e"
  | so s1 e where "getItemAsync en OriginRead ''portal_seed_origin'' s = (Inr so, s1)"
      "resolveUsername en so s1 = (Inl e, s')" "r = Inl e"
  | so s1 cu s2 e where "getItemAsync en OriginRead ''portal_seed_origin'' s = (Inr so, s1)"
      "resolveUsername en so s1 = (Inr cu, s2)"
      "deleteItemAsync en OriginDelete ''portal_seed_origin'' s2 = (Inl e, s')" "r = Inl e"
  | so s1 cu s2 s3 where "getItemAsync en OriginRead ''portal_seed_origin'' s = (Inr so, s1)"
      "resolveUsername en so s1 = (Inr cu, s2)"
      "deleteItemAsync en OriginDelete ''portal_seed_origin'' s2 = (Inr (), s3)"
      "js_trim cu \<noteq> []"
      "markInitialized en (console_log (ExistingProfile cu) s3) = (r, s')"
  | so s1 cu s2 s3 where "getItemAsync en OriginRead ''portal_seed_origin'' s = (Inr so, s1)"
      "resolveUsername en so s1 = (Inr cu, s2)"
      "deleteItemAsync en OriginDelete ''portal_seed_origin'' s2 = (Inr (), s3)"
      "js_trim cu = []" "so \<noteq> Some ''generated''" "so \<noteq> Some ''imported''"
      "markInitialized en s3 = (r, s')"
  | so s1 cu s2 s3 e where "getItemAsync en OriginRead ''portal_seed_origin'' s = (Inr so, s1)"
      "resolveUsername en so s1 = (Inr cu, s2)"
      "deleteItemAsync en OriginDelete ''portal_seed_origin'' s2 = (Inr (), s3)"
      "js_trim cu = []" "so = Some ''generated'' \<or> so = Some ''imported''"
      "createDummyProfile en s3 = (Inl e, s')" "r = Inl e"
  | so s1 cu s2 s3 where "getItemAsync en OriginRead ''portal_seed_origin'' s = (Inr so, s1)"
      "resolveUsername en so s1 = (Inr cu, s2)"
      "deleteItemAsync en OriginDelete ''portal_seed_origin'' s2 = (Inr (), s3)"
      "js_trim cu = []" "so = Some ''generated'' \<or> so = Some ''imported''"
      "createDummyProfile en s3 = (Inr False, s')" "r = Inr Aborted"
  | so s1 cu s2 s3 s4 where "getItemAsync en OriginRead ''portal_seed_origin'' s = (Inr so, s1)"
      "resolveUsername en so s1 = (Inr cu, s2)"
      "deleteItemAsync en OriginDelete ''portal_seed_origin'' s2 = (Inr (), s3)"
      "js_trim cu = []" "so = Some ''generated'' \<or> so = Some ''imported''"
      "createDummyProfile en s3 = (Inr True, s4)"
      "markInitialized en s4 = (r, s')"
proof -
  obtain a s1 where g: "getItemAsync en OriginRead ''portal_seed_origin'' s = (a, s1)"
    by (cases "getItemAsync en OriginRead ''portal_seed_origin'' s")
  show thesis
  proof (cases a)
    case (Inl e)
    with g assms that(1) show thesis by (simp add: tryBody_def await_def)
  next
    case (Inr so)
    note so = this
    obtain b s2 where u: "resolveUsername en so s1 = (b, s2)"
      by (cases "resolveUsername en so s1")
    show thesis
    proof (cases b)
      case (Inl e)
      with g so u assms that(2) show thesis by (simp add: tryBody_def await_def)
    next
      case (Inr cu)
      note cu = this
      obtain c s3 where d: "deleteItemAsync en OriginDelete ''portal_seed_origin'' s2 = (c, s3)"
        by (cases "deleteItemAsync en OriginDelete ''portal_seed_origin'' s2")
      show thesis
      proof (cases c)
        case (Inl e)
        with g so u cu d assms that(3) show thesis by (simp add: tryBody_def await_def)
      next
        case (Inr x)
        then have c: "c = Inr ()" by simp
        show thesis
        proof (cases "js_trim cu = []")
          case False
          with g so u cu d c assms that(4) show thesis by (simp add: tryBody_def await_def)
        next
          case blank: True
          show thesis
          proof (cases "so = Some ''generated'' \<or> so = Some ''imported''")
            case False
            with blank g so u cu d c assms that(5) show thesis
              by (simp add: tryBody_def await_def)
          next
            case True
            obtain y s4 where p: "createDummyProfile en s3 = (y, s4)"
              by (cases "createDummyProfile en s3")
            from True blank g so u cu d c assms p
            have r: "(case y of Inl e \<Rightarrow> (Inl e, s4)
                      | Inr created \<Rightarrow> if created then markInitialized en s4 else (Inr Aborted, s4))
                   = (r, s')"
              by (auto simp: tryBody_def await_def)
            show thesis
            proof (cases y)
              case (Inl e)
              with r True blank g so u cu d c p that(6) show thesis by simp
            next
              case (Inr created)
              with r True blank g so u cu d c p that(7) that(8) show thesis
                by (cases created) simp_all
            qed
          qed
        qed
      qed
    qed
  qed
qed

lemma markInitialized_cases:
  assumes "markInitialized en s = (r, s')"
  shows "isInitializing s' = isInitializing s \<and> username s' = username s
     \<and> console s' = console s
     \<and> trace s' = trace s @ [StoreSet ''profile_initialized'' ''true'']
     \<and> (case r of
          Inl e \<Rightarrow> store s' = store s
        | Inr out \<Rightarrow> out = Completed
            \<and> store s' = (store s)(''profile_initialized'' \<mapsto> ''true''))"
  using assms
  by (auto simp: markInitialized_def call_defs split: if_splits)

lemma deleteItemAsync_rejected:
  "deleteItemAsync en c k s = (Inl e, s') \<Longrightarrow> s' = emit (StoreDelete k) s"
  by (auto simp: deleteItemAsync_def Let_def split: if_splits)

lemma deleteItemAsync_done:
  "deleteItemAsync en c k s = (Inr u, s') \<Longrightarrow>
     s' = (emit (StoreDelete k) s)\<lparr>store := (store s)(k := None)\<rparr>"
  by (auto simp: deleteItemAsync_def emit_def Let_def split: if_splits)

lemma getItemAsync_resolved:
  "getItemAsync en c k s = (Inr v, s') \<Longrightarrow> v = store s k \<and> s' = emit (StoreGet k) s"
  by (auto simp: getItemAsync_def emit_def Let_def split: if_splits)

lemma getItemAsync_rejected:
  "getItemAsync en c k s = (Inl e, s') \<Longrightarrow> s' = emit (StoreGet k) s"
  by (auto simp: getItemAsync_def emit_def Let_def split: if_splits)

lemma createDummyProfile_aborted:
  assumes "createDummyProfile en s = (Inr False, s')"
  shows "isInitializing s' = isInitializing s
     \<and> store s' ''portal_seed_origin'' = store s ''portal_seed_origin''
     \<and> trace s' = trace s @ [StoreGet ''profile_initialized'']
     \<and> store s' ''profile_initialized'' = Some ''true''
     \<and> username s' = username s
     \<and> console s' = console s @ [AbortDummyCreation]"
  using assms
  by (auto simp: createDummyProfile_def call_defs split: if_splits)

lemma createDummyProfile_created:
  assumes "createDummyProfile en s = (Inr True, s')"
  shows "isInitializing s' = isInitializing s
     \<and> store s' ''portal_seed_origin'' = store s ''portal_seed_origin''
     \<and> store s' ''profile_initialized'' \<noteq> Some ''true''
     \<and> trace s' = trace s @ [StoreGet ''profile_initialized'', SetUsername (gamertag en),
          SetUserProfile (NostrProfile (gamertag en @ ''@getportal.cc'') (gamertag en) []
            (gamertag en))]
     \<and> username s' = gamertag en
     \<and> store s' ''portal_username'' = Some (gamertag en)
     \<and> console s' = console s @ [DummyCreated (gamertag en)]
     \<and> \<not> throws en Publish
     \<and> (\<not> concurrentFinish en \<longrightarrow>
          store s' ''profile_initialized'' = store s ''profile_initialized'')"
  using assms
  by (auto simp: createDummyProfile_def call_defs split: if_splits)

lemma createDummyProfile_rejected:
  assumes "createDummyProfile en s = (Inl e, s')"
  shows "isInitializing s' = isInitializing s
     \<and> store s' ''portal_seed_origin'' = store s ''portal_seed_origin''
     \<and> (\<exists>t. trace s' = trace s @ t)
     \<and> (\<not> concurrentFinish en \<longrightarrow>
          store s' ''profile_initialized'' = store s ''profile_initialized'')
     \<and> console s' = console s
     \<and> (publishes (trace s') \<noteq> publishes (trace s) \<longrightarrow>
          e = Rejected Publish \<and> publishes (trace s') = Suc (publishes (trace s))
          \<and> store s' ''profile_initialized'' \<noteq> Some ''true'')"
  using assms
  by (auto simp: createDummyProfile_def call_defs split: if_splits)

lemmas tryBody_steps = resolveUsername_untouched getItemAsync_resolved getItemAsync_rejected
  deleteItemAsync_done deleteItemAsync_rejected createDummyProfile_aborted
  createDummyProfile_created createDummyProfile_rejected markInitialized_cases

lemma tryBody_trace:
  assumes "tryBody en s = (r, s')"
  shows "\<exists>t. trace s' = trace s @ StoreGet ''portal_seed_origin'' # t"
  using assms
  by (cases rule: tryBody_cases)
    (auto dest!: tryBody_steps simp: untouched_def emit_def console_log_def)

lemma tryBody_returned:
  assumes "tryBody en s = (Inr out, s')"
  shows "(out = Completed \<or> out = Aborted)
     \<and> store s' ''portal_seed_origin'' = None
     \<and> store s' ''profile_initialized'' = Some ''true''"
  using assms
  by (cases rule: tryBody_cases)
    (auto dest!: tryBody_steps simp: untouched_def emit_def console_log_def)

lemma tryBody_rejected:
  assumes "tryBody en s = (Inl e, s')" and "\<not> concurrentFinish en"
  shows "store s' ''profile_initialized'' = store s ''profile_initialized''"
  using assms
  by (cases rule: tryBody_cases)
    (auto dest!: tryBody_steps simp: untouched_def emit_def console_log_def)

lemma tryBody_publish_rejected:
  assumes "tryBody en s = (r, s')" and "throws en Publish"
    and "publishes (trace s') \<noteq> publishes (trace s)"
  shows "r = Inl (Rejected Publish)
     \<and> publishes (trace s') = Suc (publishes (trace s))
     \<and> store s' ''profile_initialized'' \<noteq> Some ''true''
     \<and> console s' = console s"
  using assms
  by (cases rule: tryBody_cases)
    (auto dest!: tryBody_steps simp: untouched_def emit_def console_log_def)

subsection \<open>The whole function\<close>

lemma runBody_cases:
  assumes "runBody en s = (out, s')"
  shows "(\<exists>e s1. tryBody en s = (Inl e, s1) \<and> out = Failed e
            \<and> s' = (console_log (InitFailed e) s1)\<lparr>isInitializing := False\<rparr>)
       \<or> (\<exists>s1. tryBody en s = (Inr out, s1) \<and> s' = s1\<lparr>isInitializing := False\<rparr>)"
  using assms
  by (auto simp: runBody_def split: prod.splits sum.splits)

lemma initializeProfile_enters:
  assumes "qualifies en" and "\<not> isInitializing s" and "\<not> throws en GuardRead"
    and "store s ''profile_initialized'' \<noteq> Some ''true''"
  shows "initializeProfile en s
     = runBody en (emit (StoreGet ''profile_initialized'') (s\<lparr>isInitializing := True\<rparr>))"
  using assms
  by (simp add: initializeProfile_def qualifies_def getItemAsync_def emit_def Let_def)

lemma initializeProfile_cases:
  assumes "initializeProfile en s = (out, s')"
  shows "(out = NoOp \<and> trace s' = trace s \<and> store s' = store s \<and> username s' = username s)
     \<or> ((out = AlreadyInitialized \<or> (\<exists>e. out = Escaped e))
          \<and> trace s' = trace s @ [StoreGet ''profile_initialized''] \<and> store s' = store s
          \<and> username s' = username s)
     \<or> (qualifies en \<and> \<not> isInitializing s \<and> \<not> throws en GuardRead
          \<and> store s ''profile_initialized'' \<noteq> Some ''true''
          \<and> runBody en (emit (StoreGet ''profile_initialized'') (s\<lparr>isInitializing := True\<rparr>))
              = (out, s'))"
  using assms
  by (auto simp: initializeProfile_def qualifies_def getItemAsync_def emit_def Let_def
      console_log_def split: if_splits)

lemma initializeProfile_in_body:
  assumes "initializeProfile en s = (out, s')"
    and "out = Completed \<or> out = Aborted \<or> out = Failed e"
  shows "qualifies en \<and> \<not> isInitializing s \<and> \<not> throws en GuardRead
     \<and> store s ''profile_initialized'' \<noteq> Some ''true''
     \<and> runBody en (emit (StoreGet ''profile_initialized'') (s\<lparr>isInitializing := True\<rparr>))
         = (out, s')"
  using initializeProfile_cases [OF assms(1)] assms(2) by auto

text \<open>
  C8. After a run of the body that did not reject (it reached the flag-set, or took the
  early \<open>return\<close> of line 286 because another run had finished), \<open>portal_seed_origin\<close> is
  absent from the secure store, whatever the origin was and however fetch and publish went.
\<close>

theorem completed_run_consumes_origin:
  assumes "initializeProfile en s = (out, s')" and "out = Completed \<or> out = Aborted"
  shows "store s' ''portal_seed_origin'' = None"
proof -
  from assms have "runBody en (emit (StoreGet ''profile_initialized'') (s\<lparr>isInitializing := True\<rparr>))
      = (out, s')"
    using initializeProfile_in_body [of en s out s'] by blast
  from runBody_cases [OF this] assms(2) obtain s1 where
    "tryBody en (emit (StoreGet ''profile_initialized'') (s\<lparr>isInitializing := True\<rparr>))
       = (Inr out, s1)" "s' = s1\<lparr>isInitializing := False\<rparr>"
    by auto
  with tryBody_returned [OF this(1)] show ?thesis by simp
qed

theorem completed_run_consumes_origin_witness:
  "store (freshState [(''portal_seed_origin'', ''generated'')]) ''portal_seed_origin''
     = Some ''generated''
   \<and> fst (initializeProfile racingEnv (freshState [(''portal_seed_origin'', ''generated'')]))
       = Aborted
   \<and> store (snd (initializeProfile racingEnv (freshState [(''portal_seed_origin'', ''generated'')])))
        ''portal_seed_origin'' = None"
proof -
  have run: "fst (initializeProfile racingEnv (freshState [(''portal_seed_origin'', ''generated'')]))
      = Aborted"
    by (simp add: initializeProfile_def runBody_def tryBody_def resolveUsername_def
        createDummyProfile_def racingEnv_def readyEnv_def freshState_def js_trim_def call_defs)
  from completed_run_consumes_origin
    [of racingEnv "freshState [(''portal_seed_origin'', ''generated'')]" Aborted
       "snd (initializeProfile racingEnv (freshState [(''portal_seed_origin'', ''generated'')]))"]
    run
  show ?thesis
    by (simp add: freshState_def prod_eq_iff)
qed

text \<open>
  Rejections inside the \<open>try\<close> block. When a call of the body rejects and the rejection
  reaches the \<open>catch\<close> of line 311 (\<open>setUserProfile\<close> included), and no other run
  interferes, the run leaves \<open>profile_initialized\<close> as it found it, that is not \<open>"true"\<close>,
  and the latch cleared; the next qualifying trigger passes the guard and enters the body
  again, starting with the read of \<open>portal_seed_origin\<close>.
\<close>

lemma rejection_in_body_allows_retry:
  assumes "initializeProfile en s = (Failed e, s')" and "\<not> concurrentFinish en"
    and "qualifies en2" and "\<not> throws en2 GuardRead"
  shows "store s' ''profile_initialized'' = store s ''profile_initialized''
     \<and> store s' ''profile_initialized'' \<noteq> Some ''true''
     \<and> \<not> isInitializing s'
     \<and> initializeProfile en2 s'
         = runBody en2 (emit (StoreGet ''profile_initialized'') (s'\<lparr>isInitializing := True\<rparr>))
     \<and> (\<exists>t. trace (snd (initializeProfile en2 s'))
          = trace s' @ StoreGet ''profile_initialized'' # StoreGet ''portal_seed_origin'' # t)"
proof -
  let ?s0 = "emit (StoreGet ''profile_initialized'') (s\<lparr>isInitializing := True\<rparr>)"
  from initializeProfile_in_body [OF assms(1)]
  have unset: "store s ''profile_initialized'' \<noteq> Some ''true''"
    and body: "runBody en ?s0 = (Failed e, s')"
    by simp_all
  from runBody_cases [OF body] obtain s1 where
    t: "tryBody en ?s0 = (Inl e, s1)"
    and s': "s' = (console_log (InitFailed e) s1)\<lparr>isInitializing := False\<rparr>"
    by (auto dest: tryBody_returned)
  from tryBody_rejected [OF t assms(2)] s'
  have same: "store s' ''profile_initialized'' = store s ''profile_initialized''"
    by (simp add: emit_def console_log_def)
  from s' have latch: "\<not> isInitializing s'" by simp
  let ?s2 = "emit (StoreGet ''profile_initialized'') (s'\<lparr>isInitializing := True\<rparr>)"
  from same unset latch assms(3,4)
  have again: "initializeProfile en2 s' = runBody en2 ?s2"
    by (simp add: initializeProfile_enters)
  obtain out2 s3 where r2: "runBody en2 ?s2 = (out2, s3)"
    by (cases "runBody en2 ?s2")
  from runBody_cases [OF r2] obtain x s4 where
    t2: "tryBody en2 ?s2 = (x, s4)" and tr: "trace s3 = trace s4"
    by (auto simp: console_log_def)
  from tryBody_trace [OF t2] tr obtain u where
    "trace s3 = trace s' @ StoreGet ''profile_initialized'' # StoreGet ''portal_seed_origin'' # u"
    by (auto simp: emit_def)
  with again r2 have "\<exists>t. trace (snd (initializeProfile en2 s'))
      = trace s' @ StoreGet ''profile_initialized'' # StoreGet ''portal_seed_origin'' # t"
    by simp
  with same unset latch again show ?thesis by simp
qed

lemma rejection_in_body_allows_retry_example:
  "\<not> concurrentFinish publishFailsEnv \<and> qualifies readyEnv \<and> \<not> throws readyEnv GuardRead
   \<and> fst (initializeProfile publishFailsEnv (freshState [(''portal_seed_origin'', ''generated'')]))
       = Failed (Rejected Publish)
   \<and> store (snd (initializeProfile publishFailsEnv
          (freshState [(''portal_seed_origin'', ''generated'')]))) ''profile_initialized'' = None
   \<and> \<not> isInitializing (snd (initializeProfile publishFailsEnv
          (freshState [(''portal_seed_origin'', ''generated'')])))
   \<and> (\<exists>t. trace (snd (initializeProfile readyEnv (snd (initializeProfile publishFailsEnv
          (freshState [(''portal_seed_origin'', ''generated'')])))))
        = trace (snd (initializeProfile publishFailsEnv
            (freshState [(''portal_seed_origin'', ''generated'')])))
          @ StoreGet ''profile_initialized'' # StoreGet ''portal_seed_origin'' # t)"
proof -
  let ?r = "initializeProfile publishFailsEnv (freshState [(''portal_seed_origin'', ''generated'')])"
  have run: "fst ?r = Failed (Rejected Publish)"
    by (simp add: initializeProfile_def runBody_def tryBody_def resolveUsername_def
        createDummyProfile_def publishFailsEnv_def readyEnv_def freshState_def js_trim_def
        call_defs)
  have h: "\<not> concurrentFinish publishFailsEnv" "qualifies readyEnv"
    "\<not> throws readyEnv GuardRead"
    by (simp_all add: publishFailsEnv_def readyEnv_def qualifies_def)
  from run have "?r = (Failed (Rejected Publish), snd ?r)"
    by (simp add: prod_eq_iff)
  note retry = rejection_in_body_allows_retry [OF this h]
  from retry have "store (snd ?r) ''profile_initialized''
      = store (freshState [(''portal_seed_origin'', ''generated'')]) ''profile_initialized''"
    by (rule conjunct1)
  then have unset: "store (snd ?r) ''profile_initialized'' = None"
    by (simp add: freshState_def)
  from retry have latch: "\<not> isInitializing (snd ?r)"
    by (elim conjE)
  from retry have again: "\<exists>t. trace (snd (initializeProfile readyEnv (snd ?r)))
      = trace (snd ?r) @ StoreGet ''profile_initialized'' # StoreGet ''portal_seed_origin'' # t"
    by (elim conjE)
  from h run unset latch again show ?thesis
    by (intro conjI)
qed

text \<open>
  C2. The read of \<open>profile_initialized\<close> at line 152 is a step before the flag-set, and it
  stands between the latch-set of line 149 and the \<open>try\<close> block. When it rejects, the
  rejection leaves the function with no \<open>finally\<close> to pass: \<open>profile_initialized\<close> remains
  unset, but the latch stays set, and the next qualifying trigger stops at the latch
  check of line 143 instead of entering the body again.
\<close>

theorem guard_read_rejection_leaves_latch_set:
  "\<not> isInitializing (freshState [(''portal_seed_origin'', ''generated'')])
   \<and> initializeProfile guardFailsEnv (freshState [(''portal_seed_origin'', ''generated'')])
       = (Escaped (Rejected GuardRead),
          (freshState [(''portal_seed_origin'', ''generated'')])
            \<lparr>isInitializing := True, trace := [StoreGet ''profile_initialized'']\<rparr>)
   \<and> qualifies readyEnv
   \<and> initializeProfile readyEnv
         ((freshState [(''portal_seed_origin'', ''generated'')])
            \<lparr>isInitializing := True, trace := [StoreGet ''profile_initialized'']\<rparr>)
       = (NoOp,
          (freshState [(''portal_seed_origin'', ''generated'')])
            \<lparr>isInitializing := True, trace := [StoreGet ''profile_initialized''],
              console := [InProgressSkip]\<rparr>)"
  by (simp add: initializeProfile_def guardFailsEnv_def readyEnv_def freshState_def
      qualifies_def call_defs)

theorem guard_read_rejection_leaves_latch_set_witness:
  "isInitializing
     (snd (initializeProfile guardFailsEnv (freshState [(''portal_seed_origin'', ''generated'')])))
   \<and> store (snd (initializeProfile guardFailsEnv
          (freshState [(''portal_seed_origin'', ''generated'')]))) ''profile_initialized'' = None
   \<and> fst (initializeProfile readyEnv
          (snd (initializeProfile guardFailsEnv
            (freshState [(''portal_seed_origin'', ''generated'')])))) = NoOp"
  using guard_read_rejection_leaves_latch_set
  by (simp add: freshState_def)

text \<open>
  C1, as the code has it. When the fallback publish is reached and \<open>setUserProfile\<close>
  rejects, the rejection goes to the \<open>catch\<close> of line 311: it is logged, the publish was
  attempted once and is not retried within the run, the latch is cleared, and the
  flag-set of line 310 is skipped, so \<open>profile_initialized\<close> is not \<open>"true"\<close> when the run
  ends.
\<close>

theorem publish_rejection_leaves_flag_unset:
  assumes "initializeProfile en s = (out, s')" and "throws en Publish"
    and "publishes (trace s') \<noteq> publishes (trace s)"
  shows "out = Failed (Rejected Publish)
     \<and> publishes (trace s') = Suc (publishes (trace s))
     \<and> console s' = console s @ [InitFailed (Rejected Publish)]
     \<and> store s' ''profile_initialized'' \<noteq> Some ''true''
     \<and> \<not> isInitializing s'"
proof -
  let ?s0 = "emit (StoreGet ''profile_initialized'') (s\<lparr>isInitializing := True\<rparr>)"
  from initializeProfile_cases [OF assms(1)] assms(3)
  have body: "runBody en ?s0 = (out, s')"
    by auto
  from runBody_cases [OF body] obtain x s1 where
    t: "tryBody en ?s0 = (x, s1)" and p: "publishes (trace s') = publishes (trace s1)"
    by (auto simp: console_log_def)
  from p assms(3) have "publishes (trace s1) \<noteq> publishes (trace ?s0)"
    by (simp add: emit_def)
  from tryBody_publish_rejected [OF t assms(2) this]
  have x: "x = Inl (Rejected Publish)"
    and n: "publishes (trace s1) = Suc (publishes (trace ?s0))"
    and f: "store s1 ''profile_initialized'' \<noteq> Some ''true''"
    and c: "console s1 = console ?s0"
    by simp_all
  from runBody_cases [OF body] t x
  have out: "out = Failed (Rejected Publish)"
    and s': "s' = (console_log (InitFailed (Rejected Publish)) s1)\<lparr>isInitializing := False\<rparr>"
    by auto
  from s' n f c out show ?thesis
    by (simp add: emit_def console_log_def)
qed

theorem publish_rejection_leaves_flag_unset_witness:
  "throws missThenPublishFailsEnv Publish
   \<and> publishes (trace (snd (initializeProfile missThenPublishFailsEnv
          (freshState [(''portal_seed_origin'', ''imported'')])))) = 1
   \<and> fst (initializeProfile missThenPublishFailsEnv
          (freshState [(''portal_seed_origin'', ''imported'')])) = Failed (Rejected Publish)
   \<and> store (snd (initializeProfile missThenPublishFailsEnv
          (freshState [(''portal_seed_origin'', ''imported'')]))) ''profile_initialized''
       \<noteq> Some ''true''
   \<and> \<not> isInitializing (snd (initializeProfile missThenPublishFailsEnv
          (freshState [(''portal_seed_origin'', ''imported'')])))"
proof -
  let ?s = "freshState [(''portal_seed_origin'', ''imported'')]"
  let ?r = "initializeProfile missThenPublishFailsEnv ?s"
  have p: "publishes (trace (snd ?r)) = 1"
    by (simp add: initializeProfile_def runBody_def tryBody_def resolveUsername_def
        resolveImported_def networkLookup_def waitForRelayConnection_def checkConnection_def
        refreshConnectionStatus_def sleep_def fetchFromNetwork_def usableLocalUsername_def
        createDummyProfile_def missThenPublishFailsEnv_def readyEnv_def freshState_def
        js_trim_def call_defs)
  have h: "throws missThenPublishFailsEnv Publish"
    by (simp add: missThenPublishFailsEnv_def)
  from p have "publishes (trace (snd ?r)) \<noteq> publishes (trace ?s)"
    by (simp add: freshState_def)
  from publish_rejection_leaves_flag_unset [OF _ h this, of "fst ?r"] p h show ?thesis
    by simp
qed

text \<open>
  C1, as the claim has it: with origin \<open>"generated"\<close>, no stored username and
  \<open>setUserProfile\<close> rejecting, the run reaches the publish, and \<open>profile_initialized\<close> is
  absent when it ends.
\<close>

theorem publish_failure_sets_flag_counterexample:
  "fst (initializeProfile publishFailsEnv (freshState [(''portal_seed_origin'', ''generated'')]))
     = Failed (Rejected Publish)
   \<and> trace (snd (initializeProfile publishFailsEnv
        (freshState [(''portal_seed_origin'', ''generated'')])))
     = [StoreGet ''profile_initialized'', StoreGet ''portal_seed_origin'',
        StoreGet ''portal_username'', StoreDelete ''portal_seed_origin'',
        StoreGet ''profile_initialized'', SetUsername ''SwiftFox42'',
        SetUserProfile (NostrProfile ''SwiftFox42@getportal.cc'' ''SwiftFox42'' [] ''SwiftFox42'')]
   \<and> store (snd (initializeProfile publishFailsEnv
        (freshState [(''portal_seed_origin'', ''generated'')]))) ''profile_initialized'' = None"
  by (simp add: initializeProfile_def runBody_def tryBody_def resolveUsername_def
      createDummyProfile_def publishFailsEnv_def readyEnv_def freshState_def js_trim_def
      call_defs)

subsection \<open>What a completed run has done about the username\<close>

lemma fetchFromNetwork_result:
  assumes "fetchFromNetwork en s = (Inr cu, s')"
  shows "fetches (trace s') = Suc (fetches (trace s))
     \<and> (cu = [] \<or> found (fetchResult en) \<and> res_username (fetchResult en) = Some cu
          \<and> username s' = cu \<and> store s' ''portal_username'' = Some cu)"
  using assms
  by (auto simp: fetchFromNetwork_def call_defs split: if_splits option.splits)

lemma networkLookup_result:
  assumes "networkLookup en s = (Inr cu, s')"
  shows "fetches (trace s') = Suc (fetches (trace s))
     \<and> (cu = [] \<or> found (fetchResult en) \<and> res_username (fetchResult en) = Some cu
          \<and> username s' = cu \<and> store s' ''portal_username'' = Some cu)"
proof -
  from assms obtain s1 b s2 where
    a: "setUsername en SetLoading ''Loading...'' s = (Inr (), s1)"
    and w: "waitForRelayConnection en s1 = (Inr b, s2)"
    and f: "fetchFromNetwork en s2 = (Inr cu, s')"
    by (auto simp: networkLookup_def await_def split: prod.splits sum.splits)
  from a have "fetches (trace s1) = fetches (trace s)"
    by (auto simp: setUsername_def emit_def Let_def split: if_splits)
  moreover from waitForRelayConnection_frame [OF w] have "fetches (trace s2) = fetches (trace s1)"
    by auto
  ultimately show ?thesis using fetchFromNetwork_result [OF f] by simp
qed

lemma resolveUsername_result:
  assumes "resolveUsername en so s = (Inr cu, s')"
  shows "(fetches (trace s') = fetches (trace s) \<and> username s' = username s
          \<and> store s' ''portal_username'' = store s ''portal_username''
          \<and> cu = (case store s ''portal_username'' of None \<Rightarrow> [] | Some u \<Rightarrow> u)
          \<and> (so = Some ''imported'' \<longrightarrow> js_trim cu \<noteq> []))
       \<or> (so = Some ''imported'' \<and> fetches (trace s') = Suc (fetches (trace s))
          \<and> (cu = [] \<or> found (fetchResult en) \<and> res_username (fetchResult en) = Some cu
               \<and> username s' = cu \<and> store s' ''portal_username'' = Some cu))"
proof (cases "so = Some ''imported'' \<and> \<not> usableLocalUsername (store s ''portal_username'')")
  case True
  with assms have "networkLookup en (emit (StoreGet ''portal_username'') s) = (Inr cu, s')"
    by (auto simp: resolveUsername_def resolveImported_def getItemAsync_def await_def Let_def
        emit_def split: if_splits)
  from networkLookup_result [OF this] True show ?thesis
    by (simp add: emit_def)
next
  case False
  with assms show ?thesis
    by (auto simp: resolveUsername_def resolveImported_def getItemAsync_def await_def Let_def
        emit_def usableLocalUsername_def split: if_splits option.splits)
qed

lemma runEvents_append: "trace s' = trace s @ t \<Longrightarrow> runEvents s s' = t"
  by (simp add: runEvents_def)

lemma runLogs_append: "console s' = console s @ c \<Longrightarrow> runLogs s s' = c"
  by (simp add: runLogs_def)

lemma js_trim_Nil: "js_trim [] = []"
  by (simp add: js_trim_def)

lemma outcomes_exclusive:
  "\<not> (preservedLocal s s' \<and> adoptedNetwork en s s')"
  "\<not> (preservedLocal s s' \<and> generatedPublished en s s')"
  "\<not> (preservedLocal s s' \<and> nothingEstablished s s')"
  "\<not> (adoptedNetwork en s s' \<and> generatedPublished en s s')"
  "\<not> (adoptedNetwork en s s' \<and> nothingEstablished s s')"
  "\<not> (generatedPublished en s s' \<and> nothingEstablished s s')"
  by (auto simp: preservedLocal_def adoptedNetwork_def generatedPublished_def
      nothingEstablished_def split: option.splits)

lemma tryBody_completed_outcome:
  assumes "tryBody en s = (Inr Completed, s')"
  shows "(preservedLocal s s' \<or> adoptedNetwork en s s' \<or> generatedPublished en s s')
       \<and> \<not> unresolvable s
     \<or> nothingEstablished s s'"
  using assms
proof (cases rule: tryBody_cases)
  case (existing so s1 cu s2 s3)
  from getItemAsync_resolved [OF existing(1)]
  have so: "so = store s ''portal_seed_origin''" and s1: "s1 = emit (StoreGet ''portal_seed_origin'') s"
    by simp_all
  from resolveUsername_untouched [OF existing(2)] obtain t where
    t: "trace s2 = trace s1 @ t" and pt: "publishes (trace s2) = publishes (trace s1)"
    and c2: "console s2 = console s1"
    by (auto simp: untouched_def)
  from deleteItemAsync_done [OF existing(3)]
  have s3: "s3 = (emit (StoreDelete ''portal_seed_origin'') s2)
      \<lparr>store := (store s2)(''portal_seed_origin'' := None)\<rparr>" .
  from markInitialized_cases [OF existing(5)]
  have tr: "trace s' = trace s3 @ [StoreSet ''profile_initialized'' ''true'']"
    and co: "console s' = console s3 @ [ExistingProfile cu]"
    and us: "username s' = username s3"
    and st: "store s' = (store s3)(''profile_initialized'' \<mapsto> ''true'')"
    by (simp_all add: console_log_def)
  from tr t s1 s3 have ev: "runEvents s s' = StoreGet ''portal_seed_origin'' # t
      @ [StoreDelete ''portal_seed_origin'', StoreSet ''profile_initialized'' ''true'']"
    by (intro runEvents_append) (simp add: emit_def)
  from co c2 s1 s3 have lg: "runLogs s s' = [ExistingProfile cu]"
    by (intro runLogs_append) (simp add: emit_def)
  from pt t have p0: "publishes t = 0" by simp
  from existing(4) have ne: "cu \<noteq> []" by (auto simp: js_trim_Nil)
  from resolveUsername_result [OF existing(2)] show ?thesis
  proof
    assume l: "fetches (trace s2) = fetches (trace s1) \<and> username s2 = username s1
          \<and> store s2 ''portal_username'' = store s1 ''portal_username''
          \<and> cu = (case store s1 ''portal_username'' of None \<Rightarrow> [] | Some u \<Rightarrow> u)
          \<and> (so = Some ''imported'' \<longrightarrow> js_trim cu \<noteq> [])"
    with t have f0: "fetches t = 0" by simp
    from l ne s1 have "store s ''portal_username'' = Some cu"
      by (auto simp: emit_def split: option.splits)
    with l f0 p0 ev lg us st s1 s3 have "preservedLocal s s'"
      by (simp add: preservedLocal_def emit_def)
    moreover from \<open>store s ''portal_username'' = Some cu\<close> existing(4)
    have "\<not> unresolvable s" by (simp add: unresolvable_def)
    ultimately show ?thesis by simp
  next
    assume n: "so = Some ''imported'' \<and> fetches (trace s2) = Suc (fetches (trace s1))
          \<and> (cu = [] \<or> found (fetchResult en) \<and> res_username (fetchResult en) = Some cu
               \<and> username s2 = cu \<and> store s2 ''portal_username'' = Some cu)"
    with t have f1: "fetches t = 1" by simp
    with n ne p0 ev lg us st s3 have "adoptedNetwork en s s'"
      by (simp add: adoptedNetwork_def emit_def)
    moreover from n so have "\<not> unresolvable s" by (simp add: unresolvable_def)
    ultimately show ?thesis by simp
  qed
next
  case (unresolved so s1 cu s2 s3)
  from getItemAsync_resolved [OF unresolved(1)]
  have so: "so = store s ''portal_seed_origin''" and s1: "s1 = emit (StoreGet ''portal_seed_origin'') s"
    by simp_all
  from resolveUsername_untouched [OF unresolved(2)] obtain t where
    t: "trace s2 = trace s1 @ t" and pt: "publishes (trace s2) = publishes (trace s1)"
    and c2: "console s2 = console s1"
    by (auto simp: untouched_def)
  from deleteItemAsync_done [OF unresolved(3)]
  have s3: "s3 = (emit (StoreDelete ''portal_seed_origin'') s2)
      \<lparr>store := (store s2)(''portal_seed_origin'' := None)\<rparr>" .
  from markInitialized_cases [OF unresolved(7)]
  have tr: "trace s' = trace s3 @ [StoreSet ''profile_initialized'' ''true'']"
    and co: "console s' = console s3"
    and us: "username s' = username s3"
    by simp_all
  from tr t s1 s3 have ev: "runEvents s s' = StoreGet ''portal_seed_origin'' # t
      @ [StoreDelete ''portal_seed_origin'', StoreSet ''profile_initialized'' ''true'']"
    by (intro runEvents_append) (simp add: emit_def)
  from co c2 s1 s3 have lg: "runLogs s s' = []"
    by (simp add: runLogs_def emit_def)
  from pt t have p0: "publishes t = 0" by simp
  from resolveUsername_result [OF unresolved(2)] unresolved(6)
  have l: "fetches (trace s2) = fetches (trace s1)" "username s2 = username s1"
    "cu = (case store s1 ''portal_username'' of None \<Rightarrow> [] | Some u \<Rightarrow> u)"
    by auto
  with t have f0: "fetches t = 0" by simp
  from l unresolved(4,5,6) so f0 p0 ev lg us s1 s3 have "nothingEstablished s s'"
    by (simp add: nothingEstablished_def unresolvable_def emit_def)
  then show ?thesis by simp
next
  case (created so s1 cu s2 s3 s4)
  from getItemAsync_resolved [OF created(1)]
  have so: "so = store s ''portal_seed_origin''" and s1: "s1 = emit (StoreGet ''portal_seed_origin'') s"
    by simp_all
  from resolveUsername_untouched [OF created(2)] obtain t where
    t: "trace s2 = trace s1 @ t" and pt: "publishes (trace s2) = publishes (trace s1)"
    and c2: "console s2 = console s1"
    by (auto simp: untouched_def)
  from deleteItemAsync_done [OF created(3)]
  have s3: "s3 = (emit (StoreDelete ''portal_seed_origin'') s2)
      \<lparr>store := (store s2)(''portal_seed_origin'' := None)\<rparr>" .
  from createDummyProfile_created [OF created(6)]
  have t4: "trace s4 = trace s3 @ [StoreGet ''profile_initialized'', SetUsername (gamertag en),
          SetUserProfile (NostrProfile (gamertag en @ ''@getportal.cc'') (gamertag en) []
            (gamertag en))]"
    and u4: "username s4 = gamertag en"
    and c4: "console s4 = console s3 @ [DummyCreated (gamertag en)]"
    by simp_all
  from markInitialized_cases [OF created(7)]
  have tr: "trace s' = trace s4 @ [StoreSet ''profile_initialized'' ''true'']"
    and co: "console s' = console s4"
    and us: "username s' = username s4"
    by simp_all
  from tr t4 t s1 s3 have ev: "runEvents s s' = StoreGet ''portal_seed_origin'' # t
      @ [StoreDelete ''portal_seed_origin'', StoreGet ''profile_initialized'',
         SetUsername (gamertag en),
         SetUserProfile (NostrProfile (gamertag en @ ''@getportal.cc'') (gamertag en) []
            (gamertag en)),
         StoreSet ''profile_initialized'' ''true'']"
    by (intro runEvents_append) (simp add: emit_def)
  from co c4 c2 s1 s3 have lg: "runLogs s s' = [DummyCreated (gamertag en)]"
    by (intro runLogs_append) (simp add: emit_def)
  from pt t have p0: "publishes t = 0" by simp
  with ev lg us u4 have "generatedPublished en s s'"
    by (simp add: generatedPublished_def)
  moreover from created(5) so have "\<not> unresolvable s" by (auto simp: unresolvable_def)
  ultimately show ?thesis by simp
qed simp_all

lemma outcome_shift:
  assumes "trace s1 = trace s0 @ t"
    and "s0 = emit (StoreGet ''profile_initialized'') (s\<lparr>isInitializing := True\<rparr>)"
    and "s' = s1\<lparr>isInitializing := False\<rparr>"
  shows "preservedLocal s s' = preservedLocal s0 s1"
    and "adoptedNetwork en s s' = adoptedNetwork en s0 s1"
    and "generatedPublished en s s' = generatedPublished en s0 s1"
    and "nothingEstablished s s' = nothingEstablished s0 s1"
proof -
  from assms have e: "runEvents s s' = StoreGet ''profile_initialized'' # runEvents s0 s1"
    by (simp add: runEvents_def emit_def)
  from assms have l: "runLogs s s' = runLogs s0 s1"
    by (simp add: runLogs_def emit_def)
  from assms have f: "store s0 = store s" "username s0 = username s" "store s' = store s1"
    "username s' = username s1"
    by (simp_all add: emit_def)
  from e l f show "preservedLocal s s' = preservedLocal s0 s1"
    by (simp add: preservedLocal_def cong: option.case_cong)
  from e l f show "adoptedNetwork en s s' = adoptedNetwork en s0 s1"
    by (simp add: adoptedNetwork_def cong: option.case_cong)
  from e l f show "generatedPublished en s s' = generatedPublished en s0 s1"
    by (simp add: generatedPublished_def)
  from e l f show "nothingEstablished s s' = nothingEstablished s0 s1"
    by (simp add: nothingEstablished_def unresolvable_def)
qed

text \<open>
  C5, as the code has it. After every run that reaches the flag-set, \<open>profile_initialized\<close>
  is \<open>"true"\<close>, \<open>portal_seed_origin\<close> is absent, and exactly one of four outcomes holds:
  the local username was preserved, a network username was taken, a generated username was
  set and published, or nothing was established. The last is the outcome exactly when
  the origin is neither \<open>"imported"\<close> nor \<open>"generated"\<close> and no non-blank username is stored
  (the gate of line 277).
\<close>

theorem completed_run_outcomes:
  assumes "initializeProfile en s = (Completed, s')"
  shows "store s' ''profile_initialized'' = Some ''true''
     \<and> store s' ''portal_seed_origin'' = None
     \<and> (preservedLocal s s' \<or> adoptedNetwork en s s' \<or> generatedPublished en s s'
          \<or> nothingEstablished s s')
     \<and> \<not> (preservedLocal s s' \<and> adoptedNetwork en s s')
     \<and> \<not> (preservedLocal s s' \<and> generatedPublished en s s')
     \<and> \<not> (preservedLocal s s' \<and> nothingEstablished s s')
     \<and> \<not> (adoptedNetwork en s s' \<and> generatedPublished en s s')
     \<and> \<not> (adoptedNetwork en s s' \<and> nothingEstablished s s')
     \<and> \<not> (generatedPublished en s s' \<and> nothingEstablished s s')
     \<and> (nothingEstablished s s' \<longleftrightarrow> unresolvable s)"
proof -
  let ?s0 = "emit (StoreGet ''profile_initialized'') (s\<lparr>isInitializing := True\<rparr>)"
  from initializeProfile_in_body [OF assms]
  have body: "runBody en ?s0 = (Completed, s')"
    by simp
  from runBody_cases [OF body] obtain s1 where
    t: "tryBody en ?s0 = (Inr Completed, s1)" and s': "s' = s1\<lparr>isInitializing := False\<rparr>"
    by auto
  from tryBody_returned [OF t] s'
  have flag: "store s' ''profile_initialized'' = Some ''true''"
    and origin: "store s' ''portal_seed_origin'' = None"
    by simp_all
  from tryBody_trace [OF t] obtain u where "trace s1 = trace ?s0 @ u"
    by auto
  note shift = outcome_shift [OF this refl s']
  have un: "unresolvable ?s0 = unresolvable s"
    by (simp add: unresolvable_def emit_def)
  from tryBody_completed_outcome [OF t] shift un
  have one: "(preservedLocal s s' \<or> adoptedNetwork en s s' \<or> generatedPublished en s s')
       \<and> \<not> unresolvable s \<or> nothingEstablished s s'"
    by simp
  then have some: "preservedLocal s s' \<or> adoptedNetwork en s s' \<or> generatedPublished en s s'
          \<or> nothingEstablished s s'"
    by blast
  from one have iff: "nothingEstablished s s' \<longleftrightarrow> unresolvable s"
    by (auto simp: nothingEstablished_def)
  from flag origin some iff outcomes_exclusive show ?thesis
    by blast
qed

lemmas run_defs = initializeProfile_def runBody_def tryBody_def resolveUsername_def
  resolveImported_def networkLookup_def waitForRelayConnection_def checkConnection_def
  refreshConnectionStatus_def sleep_def fetchFromNetwork_def usableLocalUsername_def
  createDummyProfile_def markInitialized_def js_trim_def js_whitespace_def call_defs

lemma connected_import_run:
  "fst (initializeProfile connectedEnv (freshState [(''portal_seed_origin'', ''imported'')]))
     = Completed"
  "trace (snd (initializeProfile connectedEnv (freshState [(''portal_seed_origin'', ''imported'')])))
     = [StoreGet ''profile_initialized'', StoreGet ''portal_seed_origin'',
        StoreGet ''portal_username'', SetUsername ''Loading...'', RefreshConnectionStatus,
        FetchProfile ''npub1'', StoreDelete ''portal_seed_origin'',
        StoreSet ''profile_initialized'' ''true'']"
  "console (snd (initializeProfile connectedEnv (freshState [(''portal_seed_origin'', ''imported'')])))
     = [ExistingProfile ''bob'']"
  "username (snd (initializeProfile connectedEnv (freshState [(''portal_seed_origin'', ''imported'')])))
     = ''bob''"
  "store (snd (initializeProfile connectedEnv (freshState [(''portal_seed_origin'', ''imported'')])))
     ''portal_username'' = Some ''bob''"
  by (simp_all add: run_defs connectedEnv_def readyEnv_def freshState_def)

theorem completed_run_outcomes_witness:
  "fst (initializeProfile connectedEnv (freshState [(''portal_seed_origin'', ''imported'')]))
     = Completed
   \<and> store (snd (initializeProfile connectedEnv (freshState [(''portal_seed_origin'', ''imported'')])))
        ''profile_initialized'' = Some ''true''
   \<and> store (snd (initializeProfile connectedEnv (freshState [(''portal_seed_origin'', ''imported'')])))
        ''portal_seed_origin'' = None
   \<and> adoptedNetwork connectedEnv (freshState [(''portal_seed_origin'', ''imported'')])
        (snd (initializeProfile connectedEnv (freshState [(''portal_seed_origin'', ''imported'')])))
   \<and> \<not> preservedLocal (freshState [(''portal_seed_origin'', ''imported'')])
        (snd (initializeProfile connectedEnv (freshState [(''portal_seed_origin'', ''imported'')])))
   \<and> \<not> generatedPublished connectedEnv (freshState [(''portal_seed_origin'', ''imported'')])
        (snd (initializeProfile connectedEnv (freshState [(''portal_seed_origin'', ''imported'')])))
   \<and> \<not> nothingEstablished (freshState [(''portal_seed_origin'', ''imported'')])
        (snd (initializeProfile connectedEnv (freshState [(''portal_seed_origin'', ''imported'')])))"
proof -
  let ?s = "freshState [(''portal_seed_origin'', ''imported'')]"
  let ?r = "initializeProfile connectedEnv ?s"
  have "?r = (Completed, snd ?r)"
    by (simp add: prod_eq_iff connected_import_run)
  note all = completed_run_outcomes [OF this]
  have fr: "fetchResult connectedEnv = \<lparr>found = True, res_username = Some ''bob''\<rparr>"
    by (simp add: connectedEnv_def readyEnv_def)
  have st: "trace ?s = []" "console ?s = []"
    by (simp_all add: freshState_def)
  have "adoptedNetwork connectedEnv ?s (snd ?r)"
    by (simp add: adoptedNetwork_def runEvents_def runLogs_def connected_import_run fr st)
  with all connected_import_run(1) show ?thesis
    by blast
qed

text \<open>
  C5, as the claim has it: with no origin and no username stored, the run completes and
  sets the flag, and none of the three outcomes holds: it fetched nothing, published
  nothing and the username is still empty.
\<close>

theorem exactly_one_outcome_counterexample:
  "fst (initializeProfile readyEnv (freshState [])) = Completed
   \<and> trace (snd (initializeProfile readyEnv (freshState [])))
       = [StoreGet ''profile_initialized'', StoreGet ''portal_seed_origin'',
          StoreGet ''portal_username'', StoreDelete ''portal_seed_origin'',
          StoreSet ''profile_initialized'' ''true'']
   \<and> username (snd (initializeProfile readyEnv (freshState []))) = []
   \<and> \<not> preservedLocal (freshState []) (snd (initializeProfile readyEnv (freshState [])))
   \<and> \<not> adoptedNetwork readyEnv (freshState []) (snd (initializeProfile readyEnv (freshState [])))
   \<and> \<not> generatedPublished readyEnv (freshState [])
        (snd (initializeProfile readyEnv (freshState [])))"
  by (simp add: run_defs readyEnv_def freshState_def preservedLocal_def adoptedNetwork_def
      generatedPublished_def runEvents_def runLogs_def)

subsection \<open>The username after a network hit\<close>

text \<open>
  C4. Origin \<open>"imported"\<close>, no usable stored username, and \<open>fetchProfile\<close> resolving
  \<open>{found: true, username: u}\<close> with \<open>u\<close> not blank and not the placeholder (\<open>"bob"\<close> in the
  claim). In a run in which no call rejects, whatever the relays do during the wait, the
  username held and stored at the end is \<open>u\<close>, so the placeholder \<open>"Loading..."\<close> shown
  since line 183 is not the final state; no profile is published and the flag is set.
\<close>

theorem imported_network_hit_adopts_username:
  assumes "qualifies en" and "\<not> isInitializing s"
    and "store s ''profile_initialized'' \<noteq> Some ''true''"
    and "store s ''portal_seed_origin'' = Some ''imported''"
    and "\<not> usableLocalUsername (store s ''portal_username'')"
    and "found (fetchResult en)" and "res_username (fetchResult en) = Some u"
    and "js_trim u \<noteq> []" and "u \<noteq> ''Loading...''"
    and "\<forall>c. \<not> throws en c"
  shows "fst (initializeProfile en s) = Completed
     \<and> username (snd (initializeProfile en s)) = u
     \<and> username (snd (initializeProfile en s)) \<noteq> ''Loading...''
     \<and> store (snd (initializeProfile en s)) ''portal_username'' = Some u
     \<and> publishes (trace (snd (initializeProfile en s))) = publishes (trace s)
     \<and> store (snd (initializeProfile en s)) ''profile_initialized'' = Some ''true''"
proof -
  let ?a = "emit (StoreGet ''portal_username'')
      (emit (StoreGet ''portal_seed_origin'')
        (emit (StoreGet ''profile_initialized'') (s\<lparr>isInitializing := True\<rparr>)))"
  let ?b = "(emit (SetUsername ''Loading...'') ?a)
      \<lparr>username := ''Loading...'', store := (store ?a)(''portal_username'' \<mapsto> ''Loading...'')\<rparr>"
  from assms(10) have "\<forall>j. \<not> throws en (Refresh j)" by simp
  from waitForRelayConnection_ok [OF this, of ?b] obtain b n where
    w: "waitForRelayConnection en ?b =
          (Inr b, ?b\<lparr>now := now ?b + 100 + (n - 1) * (checkInterval + 100) + sum (lag en) {..<n},
                    trace := trace ?b @ replicate n RefreshConnectionStatus\<rparr>)"
    by blast
  from assms(8) have "u \<noteq> []" by (auto simp: js_trim_Nil)
  with assms w show ?thesis
    by (simp add: initializeProfile_def qualifies_def runBody_def tryBody_def
        resolveUsername_def resolveImported_def networkLookup_def fetchFromNetwork_def
        markInitialized_def call_defs)
qed

theorem imported_network_hit_adopts_username_witness:
  "qualifies readyEnv \<and> \<not> isInitializing (freshState [(''portal_seed_origin'', ''imported'')])
   \<and> store (freshState [(''portal_seed_origin'', ''imported'')]) ''profile_initialized''
       \<noteq> Some ''true''
   \<and> store (freshState [(''portal_seed_origin'', ''imported'')]) ''portal_seed_origin''
       = Some ''imported''
   \<and> \<not> usableLocalUsername
         (store (freshState [(''portal_seed_origin'', ''imported'')]) ''portal_username'')
   \<and> found (fetchResult readyEnv) \<and> res_username (fetchResult readyEnv) = Some ''bob''
   \<and> js_trim ''bob'' \<noteq> [] \<and> ''bob'' \<noteq> ''Loading...''
   \<and> (\<forall>c. \<not> throws readyEnv c)
   \<and> fst (initializeProfile readyEnv (freshState [(''portal_seed_origin'', ''imported'')]))
       = Completed
   \<and> username (snd (initializeProfile readyEnv
          (freshState [(''portal_seed_origin'', ''imported'')]))) = ''bob''
   \<and> store (snd (initializeProfile readyEnv
          (freshState [(''portal_seed_origin'', ''imported'')]))) ''portal_username''
       = Some ''bob''"
proof -
  have h: "qualifies readyEnv"
    "\<not> isInitializing (freshState [(''portal_seed_origin'', ''imported'')])"
    "store (freshState [(''portal_seed_origin'', ''imported'')]) ''profile_initialized''
       \<noteq> Some ''true''"
    "store (freshState [(''portal_seed_origin'', ''imported'')]) ''portal_seed_origin''
       = Some ''imported''"
    "\<not> usableLocalUsername
         (store (freshState [(''portal_seed_origin'', ''imported'')]) ''portal_username'')"
    "found (fetchResult readyEnv)" "res_username (fetchResult readyEnv) = Some ''bob''"
    "js_trim ''bob'' \<noteq> []" "''bob'' \<noteq> ''Loading...''"
    "\<forall>c. \<not> throws readyEnv c"
    by (simp_all add: readyEnv_def qualifies_def freshState_def usableLocalUsername_def
        js_trim_def js_whitespace_def)
  from imported_network_hit_adopts_username [OF h] h show ?thesis
    by blast
qed

end
